theory Spec2Isabelle
  imports Main
begin

section \<open>Counter store (RedisManager.ts)\<close>

text \<open>
  The Redis server is a map from keys to a string value and a remaining time to live in
  seconds (\<open>None\<close>: the key never expires). Every client call goes through
  \<open>executeRedisOperation\<close>, which logs and rethrows: a failing call is \<open>Inl\<close>.
\<close>

datatype redis_error = RedisError

record redis_entry =
  rvalue :: string
  rttl :: "nat option"

type_synonym redis = "string \<rightharpoonup> redis_entry"

text \<open>The connection: \<open>redis_up\<close> false makes every command reject.\<close>

record redis_conn =
  redis_up :: bool
  redis_db :: redis

text \<open>A JavaScript number as far as these counters need it: an integer or NaN.\<close>

datatype jsnum = NaN | Num int

text \<open>
  \<open>client.setEx(key, ttl, value)\<close> stores the value with the time to live \<open>ttl\<close>
  (the server rejects a time to live that is not positive);
  \<open>client.set(key, value)\<close> stores the value and discards any time to live.
\<close>

definition setEx :: "redis_conn \<Rightarrow> string \<Rightarrow> int \<Rightarrow> string \<Rightarrow> redis_error + redis_conn" where
  "setEx c key ttl v =
     (if \<not> redis_up c \<or> ttl \<le> 0 then Inl RedisError
      else Inr (c\<lparr>redis_db := (redis_db c)(key \<mapsto> \<lparr>rvalue = v, rttl = Some (nat ttl)\<rparr>)\<rparr>))"

definition client_set :: "redis_conn \<Rightarrow> string \<Rightarrow> string \<Rightarrow> redis_error + redis_conn" where
  "client_set c key v =
     (if \<not> redis_up c then Inl RedisError
      else Inr (c\<lparr>redis_db := (redis_db c)(key \<mapsto> \<lparr>rvalue = v, rttl = None\<rparr>)\<rparr>))"

definition client_get :: "redis_conn \<Rightarrow> string \<Rightarrow> redis_error + string option" where
  "client_get c key =
     (if \<not> redis_up c then Inl RedisError
      else Inr (map_option rvalue (redis_db c key)))"

text \<open>
  \<open>RedisManager.set(key, value, ttl?)\<close>: \<open>if (ttl)\<close> is false for a missing
  and for a zero \<open>ttl\<close>.
\<close>

definition redis_set :: "redis_conn \<Rightarrow> string \<Rightarrow> string \<Rightarrow> int option \<Rightarrow> redis_error + redis_conn" where
  "redis_set c key v ttl =
     (case ttl of
        None \<Rightarrow> client_set c key v
      | Some t \<Rightarrow> if t \<noteq> 0 then setEx c key t v else client_set c key v)"

definition redis_get :: "redis_conn \<Rightarrow> string \<Rightarrow> redis_error + string option" where
  "redis_get c key = client_get c key"

subsection \<open>Number.toString and parseInt on decimal integers\<close>

definition digit_char :: "nat \<Rightarrow> char" where
  "digit_char d = char_of (48 + d)"

fun nat_digits :: "nat \<Rightarrow> string" where
  "nat_digits n = (if n < 10 then [digit_char n] else nat_digits (n div 10) @ [digit_char (n mod 10)])"

declare nat_digits.simps [simp del]

definition toString :: "jsnum \<Rightarrow> string" where
  "toString x =
     (case x of
        NaN \<Rightarrow> ''NaN''
      | Num i \<Rightarrow> if i < 0 then CHR ''-'' # nat_digits (nat (- i)) else nat_digits (nat i))"

definition is_digit :: "char \<Rightarrow> bool" where
  "is_digit c = (48 \<le> (of_char c :: nat) \<and> (of_char c :: nat) \<le> 57)"

definition digits_value :: "string \<Rightarrow> nat" where
  "digits_value ds = foldl (\<lambda>a c. 10 * a + ((of_char c :: nat) - 48)) 0 ds"

definition is_space :: "char \<Rightarrow> bool" where
  "is_space c = (c = CHR '' '' \<or> c = CHR 0x09 \<or> c = CHR 0x0A \<or> c = CHR 0x0D)"

text \<open>
  \<open>parseInt(s)\<close> with no radix, on the strings this class stores (decimal text written
  by \<open>toString\<close>): leading white space, an optional sign, then the longest run of
  decimal digits; no digit gives NaN.
\<close>

definition parse_unsigned :: "string \<Rightarrow> nat option" where
  "parse_unsigned s =
     (let ds = takeWhile is_digit s in if ds = [] then None else Some (digits_value ds))"

definition parseInt :: "string \<Rightarrow> jsnum" where
  "parseInt s0 =
     (let s = dropWhile is_space s0 in
      case s of
        [] \<Rightarrow> NaN
      | c # rest \<Rightarrow>
          if c = CHR ''-'' then (case parse_unsigned rest of None \<Rightarrow> NaN | Some n \<Rightarrow> Num (- int n))
          else if c = CHR ''+'' then (case parse_unsigned rest of None \<Rightarrow> NaN | Some n \<Rightarrow> Num (int n))
          else (case parse_unsigned s of None \<Rightarrow> NaN | Some n \<Rightarrow> Num (int n)))"

definition js_succ :: "jsnum \<Rightarrow> jsnum" where
  "js_succ x = (case x of NaN \<Rightarrow> NaN | Num i \<Rightarrow> Num (i + 1))"

subsection \<open>Violation counters\<close>

text \<open>\<open>createGuardKey(type, guildId, userId)\<close> without the optional action.\<close>

definition createGuardKey :: "string \<Rightarrow> string \<Rightarrow> string \<Rightarrow> string" where
  "createGuardKey type guildId userId = ''guard:'' @ type @ '':'' @ guildId @ '':'' @ userId"

text \<open>\<open>count ? parseInt(count) : 0\<close>: a missing key and the empty string are falsy.\<close>

definition count_of :: "string option \<Rightarrow> jsnum" where
  "count_of count =
     (case count of None \<Rightarrow> Num 0 | Some s \<Rightarrow> if s = [] then Num 0 else parseInt s)"

definition getUserViolationCount :: "redis_conn \<Rightarrow> string \<Rightarrow> string \<Rightarrow> redis_error + jsnum" where
  "getUserViolationCount c userId guildId =
     (case redis_get c (createGuardKey ''violations'' guildId userId) of
        Inl e \<Rightarrow> Inl e
      | Inr count \<Rightarrow> Inr (count_of count))"

text \<open>
  \<open>incrementUserViolationCount(userId, guildId, ttl = 3600)\<close>: read, add one, write
  back with \<open>set(key, newCount.toString(), ttl)\<close>. The result is the new count and
  the connection after the call.
\<close>

definition incrementUserViolationCount ::
  "redis_conn \<Rightarrow> string \<Rightarrow> string \<Rightarrow> int \<Rightarrow> redis_error + (jsnum \<times> redis_conn)" where
  "incrementUserViolationCount c userId guildId ttl =
     (let key = createGuardKey ''violations'' guildId userId in
      case redis_get c key of
        Inl e \<Rightarrow> Inl e
      | Inr count \<Rightarrow>
          (let newCount = js_succ (count_of count) in
           case redis_set c key (toString newCount) (Some ttl) of
             Inl e \<Rightarrow> Inl e
           | Inr c' \<Rightarrow> Inr (newCount, c')))"


section \<open>Bulk membership syncer (BackupManager.fastAssignRoleToMembers)\<close>

text \<open>
  A row of the snapshot's \<open>member_data\<close> table and a live guild member, with the
  fields the function reads: the id and the role ids.
\<close>

record member_row =
  row_id :: string
  row_roles :: "string list"

record guild_member =
  member_id :: string
  member_roles :: "string list"

datatype call_error = CallError

text \<open>
  \<open>getMembersWithRole(backupId, roleId)\<close>: the rows of the snapshot whose roles
  contain \<open>roleId\<close>. It has no handler of its own: a failing query rejects.
\<close>

definition getMembersWithRole :: "call_error + member_row list \<Rightarrow> string \<Rightarrow> call_error + member_row list" where
  "getMembersWithRole member_data roleId =
     (case member_data of
        Inl e \<Rightarrow> Inl e
      | Inr rows \<Rightarrow> Inr (filter (\<lambda>r. roleId \<in> set (row_roles r)) rows))"

text \<open>\<open>Array.prototype.slice(a, b)\<close> for \<open>0 \<le> a \<le> b\<close>.\<close>

definition slice :: "'a list \<Rightarrow> nat \<Rightarrow> nat \<Rightarrow> 'a list" where
  "slice arr a b = take (b - a) (drop a arr)"

definition BATCH_SIZE :: nat where
  "BATCH_SIZE = 50"

definition CONCURRENT_BATCHES :: nat where
  "CONCURRENT_BATCHES = 5"

text \<open>\<open>for (let i = 0; i < memberArray.length; i += BATCH_SIZE) batches.push(slice(i, i + BATCH_SIZE))\<close>\<close>

function make_batches :: "'a list \<Rightarrow> nat \<Rightarrow> 'a list list" where
  "make_batches memberArray i =
     (if i < length memberArray
      then slice memberArray i (i + BATCH_SIZE) # make_batches memberArray (i + BATCH_SIZE)
      else [])"
  by pat_completeness auto
termination
  by (relation "measure (\<lambda>(memberArray, i). length memberArray - i)") (auto simp: BATCH_SIZE_def)

declare make_batches.simps [simp del]

text \<open>
  The per-member task: \<open>member.roles.add\<close> inside its own \<open>try\<close>; the task itself
  never rejects. \<open>grant\<close> tells whether the platform accepts the grant for a member id.
\<close>

record grant_result =
  gr_success :: bool
  gr_memberId :: string

datatype 'a settled = Fulfilled 'a | Rejected

definition grant_member :: "(string \<Rightarrow> bool) \<Rightarrow> guild_member \<Rightarrow> grant_result" where
  "grant_member grant member =
     (if grant (member_id member)
      then \<lparr>gr_success = True, gr_memberId = member_id member\<rparr>
      else \<lparr>gr_success = False, gr_memberId = member_id member\<rparr>)"

text \<open>\<open>Promise.allSettled(batch.map(...))\<close>: one settled result per member, in order.\<close>

definition allSettled_batch :: "(string \<Rightarrow> bool) \<Rightarrow> guild_member list \<Rightarrow> grant_result settled list" where
  "allSettled_batch grant batch = map (\<lambda>member. Fulfilled (grant_member grant member)) batch"

definition fulfilled_success :: "grant_result settled \<Rightarrow> bool" where
  "fulfilled_success r = (case r of Fulfilled v \<Rightarrow> gr_success v | Rejected \<Rightarrow> False)"

text \<open>
  The counters of the function, and \<open>attempted\<close>: the member ids for which
  \<open>member.roles.add\<close> was called, in call order.
\<close>

record counters =
  processedCount :: nat
  successCount :: nat
  errorCount :: nat
  attempted :: "string list"

definition process_batch :: "(string \<Rightarrow> bool) \<Rightarrow> counters \<Rightarrow> guild_member list \<Rightarrow> counters" where
  "process_batch grant cnt batch =
     (let batchResults = allSettled_batch grant batch;
          batchSuccessCount = length (filter fulfilled_success batchResults);
          batchErrorCount = length batchResults - batchSuccessCount
      in cnt\<lparr>successCount := successCount cnt + batchSuccessCount,
              errorCount := errorCount cnt + batchErrorCount,
              processedCount := processedCount cnt + length batch,
              attempted := attempted cnt @ map member_id batch\<rparr>)"

text \<open>
  \<open>for (let i = 0; i < batches.length; i += CONCURRENT_BATCHES)\<close>: the batches of one
  group run as concurrent tasks on the one event loop and are joined by
  \<open>Promise.all\<close>; their counter updates do not interleave inside a statement.
\<close>

function run_groups :: "(string \<Rightarrow> bool) \<Rightarrow> guild_member list list \<Rightarrow> nat \<Rightarrow> counters \<Rightarrow> counters" where
  "run_groups grant batches i cnt =
     (if i < length batches
      then run_groups grant batches (i + CONCURRENT_BATCHES)
             (foldl (process_batch grant) cnt (slice batches i (i + CONCURRENT_BATCHES)))
      else cnt)"
  by pat_completeness auto
termination
  by (relation "measure (\<lambda>(grant, batches, i, cnt). length batches - i)")
     (auto simp: CONCURRENT_BATCHES_def)

declare run_groups.simps [simp del]

datatype assign_outcome =
    AssignFailed
  | AllHaveRole
  | Assigned counters

text \<open>
  \<open>membersToAssign\<close>: the live members whose id is in the snapshot's set and who do not
  hold the (recreated or edited) role \<open>role_id\<close>.
\<close>

definition membersToAssign :: "member_row list \<Rightarrow> guild_member list \<Rightarrow> string \<Rightarrow> guild_member list" where
  "membersToAssign membersWithRole cache role_id =
     filter (\<lambda>member. member_id member \<in> set (map row_id membersWithRole)
                      \<and> role_id \<notin> set (member_roles member)) cache"

text \<open>
  \<open>fastAssignRoleToMembers(guild, role, backupId, roleId)\<close>. \<open>member_data\<close> is the
  snapshot's table (or the query's failure), \<open>members_fetch\<close> the member cache after
  \<open>guild.members.fetch()\<close> (or its failure), \<open>role_id\<close> the id of the live role and
  \<open>roleId\<close> the id the snapshot knows it by. Any rejection before the loop reaches the
  outer \<open>catch\<close>.
\<close>

definition fastAssignRoleToMembers ::
  "call_error + member_row list \<Rightarrow> call_error + guild_member list \<Rightarrow> (string \<Rightarrow> bool)
     \<Rightarrow> string \<Rightarrow> string \<Rightarrow> assign_outcome" where
  "fastAssignRoleToMembers member_data members_fetch grant role_id roleId =
     (case getMembersWithRole member_data roleId of
        Inl e \<Rightarrow> AssignFailed
      | Inr membersWithRole \<Rightarrow>
          (case members_fetch of
             Inl e \<Rightarrow> AssignFailed
           | Inr cache \<Rightarrow>
               (let memberArray = membersToAssign membersWithRole cache role_id in
                if length memberArray = 0 then AllHaveRole
                else Assigned (run_groups grant (make_batches memberArray 0) 0
                       \<lparr>processedCount = 0, successCount = 0, errorCount = 0, attempted = []\<rparr>))))"





section \<open>Guard engine (GuardManager.ts): data\<close>

datatype severity = Low | Medium | High | Critical

datatype GuardAction = LOG | NOTIFY | KICK | BAN | REMOVE_ROLE | TIMEOUT | RESTORE | LOCKDOWN

text \<open>The fields of \<open>GuardConfig\<close> that the engine reads.\<close>

record GuardConfig =
  enabled :: bool
  whitelist_users :: "string list"
  whitelist_roles :: "string list"
  auditChannelId :: "string option"
  protection_roles :: bool
  protection_webhooks :: bool
  protection_invites :: bool
  protection_members :: bool
  protection_guild :: bool
  maxInviteCreations :: int
  onViolation :: "GuardAction list"
  onSuspiciousActivity :: "GuardAction list"

datatype AuditLogEvent =
    AL_GuildUpdate | AL_ChannelCreate | AL_ChannelUpdate | AL_ChannelDelete
  | AL_RoleCreate | AL_RoleUpdate | AL_RoleDelete
  | AL_MemberKick | AL_MemberUpdate
  | AL_EmojiCreate | AL_EmojiUpdate | AL_EmojiDelete
  | AL_StickerCreate | AL_StickerUpdate | AL_StickerDelete
  | AL_WebhookCreate | AL_InviteCreate

text \<open>An audit log entry: \<open>executor?.id\<close> and \<open>targetId\<close>.\<close>

record audit_entry =
  executor_id :: "string option"
  target_id :: "string option"

text \<open>A row of the persisted whitelist table.\<close>

record whitelist_row =
  wl_guild :: string
  wl_type :: string
  wl_target :: string
  wl_expires_at :: "int option"
  wl_active :: bool

text \<open>Role fields, as a live role, an event payload or a snapshot row carries them.\<close>

record role_data =
  rl_id :: string
  rl_name :: string
  rl_color :: int
  rl_hoist :: bool
  rl_mentionable :: bool
  rl_permissions :: int
  rl_position :: int
  rl_members :: "string list"

record channel_data =
  channel_id :: string
  channel_name :: string
  channel_type :: nat
  channel_parent :: "string option"
  channel_topic :: "string option"
  channel_nsfw :: bool
  channel_rateLimitPerUser :: int
  channel_manageable :: bool

text \<open>A webhook of a channel: its id and \<open>owner?.id\<close>.\<close>

record webhook_data =
  webhook_id :: string
  webhook_owner :: "string option"

text \<open>
  The live guild as the client caches it. Within one handler run the caches are read
  only: the gateway updates them between handler runs.
\<close>

record live_guild =
  g_id :: string
  g_roles :: "role_data list"
  g_channels :: "channel_data list"
  g_emojis :: "string list"
  g_stickers :: "string list"
  g_members :: "guild_member list"
  g_me_manage_roles :: bool
  g_me_highest_position :: "int option"

text \<open>
  Every call that leaves the process, as the trace records it: reads of the platform,
  mutations of the platform, and posts to the audit channel.
\<close>

datatype platform_call =
    RoleDelete string
  | RoleCreate string
  | RoleEdit string
  | ChannelDelete string
  | ChannelCreate string
  | ChannelEdit string
  | EmojiDelete string
  | EmojiCreate string
  | EmojiEdit string
  | StickerDelete string
  | StickerCreate string
  | StickerEdit string
  | WebhookDelete string
  | GuildEdit
  | MemberKick string
  | MemberBan string
  | MemberTimeout string
  | MemberRoleRemove string string
  | MemberRoleAdd string string
  | SetVerificationLevel
  | PermissionOverwritesEdit string
  | CreateBackup
  | FetchUrl string

text \<open>
  \<open>ViolationDetected\<close> is the violation record that \<open>handleViolation\<close> builds and
  logs; \<open>ViolationEmbed\<close> and \<open>RestoreEmbed\<close> are the two embeds sent to the audit
  channel.
\<close>

datatype effect =
    FetchAuditLogs AuditLogEvent
  | FetchMember string
  | FetchWebhooks string
  | Call platform_call
  | ViolationDetected string string string severity "string option"
  | ViolationEmbed string string string severity
  | RestoreEmbed string string bool
  | RedisGet string
  | RedisSet string

text \<open>
  The snapshot store and the whitelist table (DatabaseManager): the backups as pairs
  of guild id and backup id, newest first, and the rows of each per-entity table paired
  with their backup id. An emoji or sticker row carries the \<open>guildId\<close> and \<open>url\<close>
  properties the restore reads. \<open>db_up\<close> false makes every query fail.
\<close>

record entity_row =
  er_id :: string
  er_guildId :: "string option"
  er_url :: string

record database =
  db_up :: bool
  backups_tbl :: "(string \<times> string) list"
  role_data_tbl :: "(string \<times> role_data) list"
  role_backup_tbl :: "(string \<times> role_data) list"
  backup_json_roles :: "(string \<times> role_data) list"
  channel_tbl :: "(string \<times> channel_data) list"
  emoji_tbl :: "(string \<times> entity_row) list"
  sticker_tbl :: "(string \<times> entity_row) list"
  member_tbl :: "(string \<times> member_row) list"
  whitelist_tbl :: "whitelist_row list"

text \<open>
  What one handler run sees of the outside: the clock, the bot's own user id, the
  client's guild cache, the audit log, the member endpoint (one member,
  \<open>members_api\<close>, and all members, \<open>members_fetch_ok\<close>), the webhooks of each
  channel, the database, the id the platform gives to an entity created in this run,
  and which platform calls the platform accepts.
\<close>

record env =
  now :: int
  bot_user_id :: "string option"
  client_guilds :: "string \<rightharpoonup> live_guild"
  audit_logs :: "AuditLogEvent \<Rightarrow> call_error + audit_entry option"
  members_api :: "string \<rightharpoonup> string list"
  webhooks_api :: "string \<Rightarrow> call_error + webhook_data list"
  db :: database
  members_fetch_ok :: bool
  fresh_id :: string
  platform_ok :: "platform_call \<Rightarrow> bool"

datatype timer_action = DeleteSelfAction string | DeleteRestoration string

text \<open>
  The private state of the GuardManager, the pending \<open>setTimeout\<close> callbacks with their
  due times, the Redis connection, and the trace of calls made so far.
\<close>

record engine =
  targetGuildId :: string
  configs :: "string \<rightharpoonup> GuardConfig"
  selfActions :: "string set"
  restorationInProgress :: "string set"
  whitelistCache :: "string \<rightharpoonup> (bool \<times> int)"
  recentRoleChanges :: "string \<rightharpoonup> (int \<times> string)"
  timers :: "(int \<times> timer_action) list"
  redis :: redis_conn
  trace :: "effect list"

definition SELF_ACTION_TIMEOUT :: int where
  "SELF_ACTION_TIMEOUT = 10000"

definition WHITELIST_CACHE_TTL :: int where
  "WHITELIST_CACHE_TTL = 30000"

subsection \<open>Timers\<close>

definition run_timer :: "timer_action \<Rightarrow> engine \<Rightarrow> engine" where
  "run_timer a s =
     (case a of
        DeleteSelfAction key \<Rightarrow> s\<lparr>selfActions := selfActions s - {key}\<rparr>
      | DeleteRestoration key \<Rightarrow> s\<lparr>restorationInProgress := restorationInProgress s - {key}\<rparr>)"

text \<open>
  The callbacks due at \<open>t\<close> run before the next handler. They only delete keys, so
  the order among them does not matter.
\<close>

definition fire_timers :: "int \<Rightarrow> engine \<Rightarrow> engine" where
  "fire_timers t s =
     (let due = filter (\<lambda>(d, a). d \<le> t) (timers s);
          rest = filter (\<lambda>(d, a). \<not> d \<le> t) (timers s)
      in (foldl (\<lambda>s' (d, a). run_timer a s') s due)\<lparr>timers := rest\<rparr>)"

definition setTimeout :: "env \<Rightarrow> timer_action \<Rightarrow> int \<Rightarrow> engine \<Rightarrow> engine" where
  "setTimeout e a delay s = s\<lparr>timers := timers s @ [(now e + delay, a)]\<rparr>"

subsection \<open>Trace\<close>

definition emit :: "effect \<Rightarrow> engine \<Rightarrow> engine" where
  "emit x s = s\<lparr>trace := trace s @ [x]\<rparr>"

text \<open>A platform call: recorded, and accepted or rejected by the platform.\<close>

definition platform :: "env \<Rightarrow> platform_call \<Rightarrow> engine \<Rightarrow> bool \<times> engine" where
  "platform e c s = (platform_ok e c, emit (Call c) s)"

subsection \<open>Self-action markers\<close>

definition selfKey :: "string \<Rightarrow> string \<Rightarrow> string" where
  "selfKey guildId targetId = guildId @ '':'' @ targetId"

definition isSelfAction :: "engine \<Rightarrow> string \<Rightarrow> string \<Rightarrow> bool" where
  "isSelfAction s guildId targetId = (selfKey guildId targetId \<in> selfActions s)"

definition markSelfAction :: "env \<Rightarrow> string \<Rightarrow> string \<Rightarrow> engine \<Rightarrow> engine" where
  "markSelfAction e guildId targetId s =
     (let key = selfKey guildId targetId in
      setTimeout e (DeleteSelfAction key) SELF_ACTION_TIMEOUT
        (s\<lparr>selfActions := insert key (selfActions s)\<rparr>))"

definition isBotAction :: "env \<Rightarrow> string \<Rightarrow> bool" where
  "isBotAction e executorId = (bot_user_id e = Some executorId)"

text \<open>\<open>auditLog.executor?.id || dflt\<close>: a missing and an empty id give the default.\<close>

definition executor_or :: "audit_entry \<Rightarrow> string \<Rightarrow> string" where
  "executor_or a dflt = (case executor_id a of None \<Rightarrow> dflt | Some x \<Rightarrow> if x = [] then dflt else x)"

text \<open>\<open>getAuditLog\<close>: one lookup, its own \<open>catch\<close> returns null.\<close>

definition getAuditLog :: "env \<Rightarrow> AuditLogEvent \<Rightarrow> engine \<Rightarrow> audit_entry option \<times> engine" where
  "getAuditLog e action s =
     (case audit_logs e action of
        Inl err \<Rightarrow> (None, emit (FetchAuditLogs action) s)
      | Inr entry \<Rightarrow> (entry, emit (FetchAuditLogs action) s))"

subsection \<open>Whitelist authority\<close>

definition isWhitelisted :: "env \<Rightarrow> engine \<Rightarrow> string \<Rightarrow> string \<Rightarrow> bool" where
  "isWhitelisted e s userId guildId =
     (case configs s guildId of
        None \<Rightarrow> False
      | Some config \<Rightarrow>
          userId \<in> set (whitelist_users config) \<or>
          list_ex (\<lambda>roleId.
              case client_guilds e guildId of
                None \<Rightarrow> False
              | Some guild \<Rightarrow>
                  (case find (\<lambda>m. member_id m = userId) (g_members guild) of
                     None \<Rightarrow> False
                   | Some member \<Rightarrow> roleId \<in> set (member_roles member)))
            (whitelist_roles config))"

text \<open>
  \<open>DatabaseManager.isWhitelisted\<close>: a row of that guild, type and target that is
  active and not expired; its own \<open>catch\<close> turns a failing query into false.
\<close>

definition db_isWhitelisted :: "env \<Rightarrow> string \<Rightarrow> string \<Rightarrow> string \<Rightarrow> bool" where
  "db_isWhitelisted e guildId type targetId =
     (db_up (db e) \<and>
      list_ex (\<lambda>r. wl_guild r = guildId \<and> wl_type r = type \<and> wl_target r = targetId \<and> wl_active r
                  \<and> (case wl_expires_at r of None \<Rightarrow> True | Some t \<Rightarrow> now e < t))
        (whitelist_tbl (db e)))"

text \<open>
  The body shared by \<open>isUserWhitelisted\<close>, \<open>isRoleWhitelisted\<close> and
  \<open>isActionWhitelisted\<close>, which differ in the type string only.
\<close>

definition whitelist_lookup :: "env \<Rightarrow> string \<Rightarrow> string \<Rightarrow> string \<Rightarrow> engine \<Rightarrow> bool \<times> engine" where
  "whitelist_lookup e type guildId targetId s =
     (let cacheKey = type @ '':'' @ guildId @ '':'' @ targetId;
          result = db_isWhitelisted e guildId type targetId;
          refreshed = (result, s\<lparr>whitelistCache := (whitelistCache s)(cacheKey \<mapsto> (result, now e))\<rparr>)
      in case whitelistCache s cacheKey of
           None \<Rightarrow> refreshed
         | Some (cached, timestamp) \<Rightarrow>
             if now e - timestamp < WHITELIST_CACHE_TTL then (cached, s) else refreshed)"

definition isUserWhitelisted :: "env \<Rightarrow> string \<Rightarrow> string \<Rightarrow> engine \<Rightarrow> bool \<times> engine" where
  "isUserWhitelisted e guildId userId s = whitelist_lookup e ''user'' guildId userId s"

definition isRoleWhitelisted :: "env \<Rightarrow> string \<Rightarrow> string \<Rightarrow> engine \<Rightarrow> bool \<times> engine" where
  "isRoleWhitelisted e guildId roleId s = whitelist_lookup e ''role'' guildId roleId s"

definition isActionWhitelisted :: "env \<Rightarrow> string \<Rightarrow> string \<Rightarrow> engine \<Rightarrow> bool \<times> engine" where
  "isActionWhitelisted e guildId action s = whitelist_lookup e ''action'' guildId action s"

text \<open>\<open>for (const roleId of member.roles.cache.keys())\<close>, returning at the first match.\<close>

fun check_roles :: "env \<Rightarrow> string \<Rightarrow> string list \<Rightarrow> engine \<Rightarrow> bool \<times> engine" where
  "check_roles e guildId [] s = (False, s)"
| "check_roles e guildId (roleId # rest) s =
     (case isRoleWhitelisted e guildId roleId s of
        (roleWhitelisted, s') \<Rightarrow>
          if roleWhitelisted then (True, s') else check_roles e guildId rest s')"

definition checkWhitelist :: "env \<Rightarrow> string \<Rightarrow> string \<Rightarrow> string \<Rightarrow> engine \<Rightarrow> bool \<times> engine" where
  "checkWhitelist e guildId executorId action s =
     (case isUserWhitelisted e guildId executorId s of
        (userWhitelisted, s1) \<Rightarrow>
          if userWhitelisted then (True, s1)
          else (case isActionWhitelisted e guildId action s1 of
            (actionWhitelisted, s2) \<Rightarrow>
              if actionWhitelisted then (True, s2)
              else (case client_guilds e guildId of
                None \<Rightarrow> (False, s2)
              | Some guild \<Rightarrow>
                  (case members_api e executorId of
                     None \<Rightarrow> (False, emit (FetchMember executorId) s2)
                   | Some roles \<Rightarrow> check_roles e guildId roles (emit (FetchMember executorId) s2)))))"

subsection \<open>Notifications\<close>

definition find_channel :: "live_guild \<Rightarrow> string \<Rightarrow> channel_data option" where
  "find_channel guild cid = find (\<lambda>c. channel_id c = cid) (g_channels guild)"

definition find_role :: "live_guild \<Rightarrow> string \<Rightarrow> role_data option" where
  "find_role guild rid = find (\<lambda>r. rl_id r = rid) (g_roles guild)"

text \<open>
  The audit channel of \<open>sendNotification\<close> and \<open>sendRestoreNotification\<close>: none
  when the guild has no config, when \<open>auditChannelId\<close> is missing or empty, or when
  the channel cache does not hold that id.
\<close>

definition audit_channel :: "engine \<Rightarrow> live_guild \<Rightarrow> channel_data option" where
  "audit_channel s guild =
     (case configs s (g_id guild) of
        None \<Rightarrow> None
      | Some config \<Rightarrow>
          (case auditChannelId config of
             None \<Rightarrow> None
           | Some cid \<Rightarrow> if cid = [] then None else find_channel guild cid))"

text \<open>
  \<open>sendNotification\<close>: \<open>channel.send\<close> is recorded when it is called; its rejection
  is caught and logged inside the function. The description is identified by the
  name interpolated into the fixed text of its violation type.
\<close>

definition sendNotification ::
  "live_guild \<Rightarrow> string \<Rightarrow> string \<Rightarrow> string \<Rightarrow> severity \<Rightarrow> engine \<Rightarrow> engine" where
  "sendNotification guild userId violationType description sev s =
     (case audit_channel s guild of
        None \<Rightarrow> s
      | Some channel \<Rightarrow> emit (ViolationEmbed userId violationType description sev) s)"

definition sendRestoreNotification :: "live_guild \<Rightarrow> string \<Rightarrow> string \<Rightarrow> bool \<Rightarrow> engine \<Rightarrow> engine" where
  "sendRestoreNotification guild type ident ok s =
     (case audit_channel s guild of
        None \<Rightarrow> s
      | Some channel \<Rightarrow> emit (RestoreEmbed type ident ok) s)"

subsection \<open>Moderation actions\<close>

text \<open>Each of these has its own \<open>try\<close>/\<open>catch\<close>: a rejected call ends the body.\<close>

definition kickUser :: "env \<Rightarrow> string \<Rightarrow> engine \<Rightarrow> engine" where
  "kickUser e userId s =
     (case members_api e userId of
        None \<Rightarrow> emit (FetchMember userId) s
      | Some roles \<Rightarrow> snd (platform e (MemberKick userId) (emit (FetchMember userId) s)))"

definition banUser :: "env \<Rightarrow> string \<Rightarrow> engine \<Rightarrow> engine" where
  "banUser e userId s =
     (case members_api e userId of
        None \<Rightarrow> emit (FetchMember userId) s
      | Some roles \<Rightarrow> snd (platform e (MemberBan userId) (emit (FetchMember userId) s)))"

definition timeoutUser :: "env \<Rightarrow> string \<Rightarrow> engine \<Rightarrow> engine" where
  "timeoutUser e userId s =
     (case members_api e userId of
        None \<Rightarrow> emit (FetchMember userId) s
      | Some roles \<Rightarrow> snd (platform e (MemberTimeout userId) (emit (FetchMember userId) s)))"

fun remove_each :: "env \<Rightarrow> string \<Rightarrow> string list \<Rightarrow> engine \<Rightarrow> engine" where
  "remove_each e userId [] s = s"
| "remove_each e userId (roleId # rest) s =
     (case platform e (MemberRoleRemove userId roleId) s of
        (ok, s') \<Rightarrow> if ok then remove_each e userId rest s' else s')"

definition removeRoles :: "env \<Rightarrow> live_guild \<Rightarrow> string \<Rightarrow> engine \<Rightarrow> engine" where
  "removeRoles e guild userId s =
     (case members_api e userId of
        None \<Rightarrow> emit (FetchMember userId) s
      | Some roles \<Rightarrow>
          (let rolesToRemove =
                 filter (\<lambda>roleId. case find_role guild roleId of
                                     None \<Rightarrow> False
                                   | Some role \<Rightarrow> rl_name role \<noteq> ''@everyone'') roles
           in remove_each e userId rolesToRemove (emit (FetchMember userId) s)))"

fun overwrite_each :: "env \<Rightarrow> channel_data list \<Rightarrow> engine \<Rightarrow> engine" where
  "overwrite_each e [] s = s"
| "overwrite_each e (channel # rest) s =
     (case platform e (PermissionOverwritesEdit (channel_id channel)) s of
        (ok, s') \<Rightarrow> if ok then overwrite_each e rest s' else s')"

definition lockdownGuild :: "env \<Rightarrow> live_guild \<Rightarrow> engine \<Rightarrow> engine" where
  "lockdownGuild e guild s =
     (case platform e SetVerificationLevel s of
        (ok, s') \<Rightarrow>
          if ok
          then overwrite_each e
                 (filter (\<lambda>channel. channel_type channel = 0 \<and> channel_manageable channel) (g_channels guild)) s'
          else s')"

subsection \<open>Snapshot queries (DatabaseManager)\<close>

text \<open>\<open>getLatestBackup\<close> catches a failing query and returns null.\<close>

definition getLatestBackup :: "env \<Rightarrow> string \<Rightarrow> string option" where
  "getLatestBackup e guildId =
     (if db_up (db e)
      then (case filter (\<lambda>(g, b). g = guildId) (backups_tbl (db e)) of
              [] \<Rightarrow> None
            | (g, b) # rest \<Rightarrow> Some b)
      else None)"

text \<open>\<open>getBackupsByGuild(guildId, limit)\<close> rethrows a failing query.\<close>

definition getBackupsByGuild :: "env \<Rightarrow> string \<Rightarrow> nat \<Rightarrow> call_error + string list" where
  "getBackupsByGuild e guildId limit =
     (if db_up (db e)
      then Inr (take limit (map snd (filter (\<lambda>(g, b). g = guildId) (backups_tbl (db e)))))
      else Inl CallError)"

definition table_row :: "(string \<times> 'r) list \<Rightarrow> ('r \<Rightarrow> string) \<Rightarrow> string \<Rightarrow> string \<Rightarrow> 'r option" where
  "table_row tbl id_of backupId ident =
     map_option snd (find (\<lambda>(b, r). b = backupId \<and> id_of r = ident) tbl)"

text \<open>Queries with no handler of their own: \<open>getChannelData\<close>, \<open>getEmojiData\<close>, ...\<close>

definition query_row :: "env \<Rightarrow> (string \<times> 'r) list \<Rightarrow> ('r \<Rightarrow> string) \<Rightarrow> string \<Rightarrow> string \<Rightarrow> call_error + 'r option" where
  "query_row e tbl id_of backupId ident =
     (if db_up (db e) then Inr (table_row tbl id_of backupId ident) else Inl CallError)"

text \<open>Queries through \<open>getDataFromTable\<close>, which returns null when the query fails.\<close>

definition safe_row :: "env \<Rightarrow> (string \<times> 'r) list \<Rightarrow> ('r \<Rightarrow> string) \<Rightarrow> string \<Rightarrow> string \<Rightarrow> 'r option" where
  "safe_row e tbl id_of backupId ident =
     (if db_up (db e) then table_row tbl id_of backupId ident else None)"

subsection \<open>Restores of the BackupManager\<close>

text \<open>
  \<open>restoreEmoji(backupId, emojiId)\<close> and \<open>restoreSticker(backupId, stickerId)\<close>:
  the row of that backup, the guild named by the row's \<open>guildId\<close>, the download of
  the image and the creation; every failure is caught and gives false.
\<close>

definition restore_entity ::
  "env \<Rightarrow> (string \<times> entity_row) list \<Rightarrow> (string \<Rightarrow> platform_call) \<Rightarrow> string \<Rightarrow> string \<Rightarrow> engine
     \<Rightarrow> bool \<times> engine" where
  "restore_entity e tbl create backupId ident s =
     (case query_row e tbl er_id backupId ident of
        Inl err \<Rightarrow> (False, s)
      | Inr None \<Rightarrow> (False, s)
      | Inr (Some row) \<Rightarrow>
          (case er_guildId row of
             None \<Rightarrow> (False, s)
           | Some gid \<Rightarrow>
               (case client_guilds e gid of
                  None \<Rightarrow> (False, s)
                | Some guild \<Rightarrow>
                    (case platform e (FetchUrl (er_url row)) s of
                       (fetched, s1) \<Rightarrow>
                         if fetched then platform e (create ident) s1 else (False, s1)))))"

definition restoreEmoji :: "env \<Rightarrow> string \<Rightarrow> string \<Rightarrow> engine \<Rightarrow> bool \<times> engine" where
  "restoreEmoji e backupId emojiId s = restore_entity e (emoji_tbl (db e)) EmojiCreate backupId emojiId s"

definition restoreSticker :: "env \<Rightarrow> string \<Rightarrow> string \<Rightarrow> engine \<Rightarrow> bool \<times> engine" where
  "restoreSticker e backupId stickerId s =
     restore_entity e (sticker_tbl (db e)) StickerCreate backupId stickerId s"

text \<open>
  The bulk syncer run against the environment: the snapshot's member rows of that
  backup, the member cache after \<open>guild.members.fetch()\<close>, and one recorded
  \<open>member.roles.add\<close> per attempted member.
\<close>

definition fastAssign_run :: "env \<Rightarrow> live_guild \<Rightarrow> string \<Rightarrow> string \<Rightarrow> string \<Rightarrow> engine \<Rightarrow> engine" where
  "fastAssign_run e guild role backupId roleId s =
     (case fastAssignRoleToMembers
             (if db_up (db e)
              then Inr (map snd (filter (\<lambda>(b, r). b = backupId) (member_tbl (db e))))
              else Inl CallError)
             (if members_fetch_ok e then Inr (g_members guild) else Inl CallError)
             (\<lambda>m. platform_ok e (MemberRoleAdd m role)) role roleId of
        Assigned cnt \<Rightarrow> foldl (\<lambda>s' m. emit (Call (MemberRoleAdd m role)) s') s (attempted cnt)
      | AllHaveRole \<Rightarrow> s
      | AssignFailed \<Rightarrow> s)"

text \<open>
  The common end of \<open>restoreRole\<close> and \<open>restoreRoleFromBackupData\<close>: edit the role
  when the cache holds it, create it otherwise, then run the bulk syncer. The decoding
  of the stored permissions is taken to succeed.
\<close>

definition create_or_edit_role :: "env \<Rightarrow> string \<Rightarrow> string \<Rightarrow> engine \<Rightarrow> bool \<times> engine" where
  "create_or_edit_role e backupId roleId s =
     (case client_guilds e (targetGuildId s) of
        None \<Rightarrow> (False, s)
      | Some guild \<Rightarrow>
          (case find_role guild roleId of
             None \<Rightarrow>
               (case platform e (RoleCreate roleId) s of
                  (ok, s1) \<Rightarrow>
                    if ok then (True, fastAssign_run e guild (fresh_id e) backupId roleId s1)
                    else (False, s1))
           | Some existingRole \<Rightarrow>
               (case platform e (RoleEdit roleId) s of
                  (ok, s1) \<Rightarrow>
                    if ok then (True, fastAssign_run e guild (rl_id existingRole) backupId roleId s1)
                    else (False, s1))))"

datatype role_lookup = RoleRowMissing | RoleRestored bool

text \<open>
  \<open>restoreRole\<close> up to its retry: the row from \<open>role_data\<close> or \<open>role_backup\<close>, else
  the role inside the backup's JSON document.
\<close>

definition restoreRole_in :: "env \<Rightarrow> string \<Rightarrow> string \<Rightarrow> engine \<Rightarrow> role_lookup \<times> engine" where
  "restoreRole_in e backupId roleId s =
     (if \<not> db_up (db e) then (RoleRestored False, s)
      else if table_row (role_data_tbl (db e)) rl_id backupId roleId \<noteq> None
              \<or> table_row (role_backup_tbl (db e)) rl_id backupId roleId \<noteq> None
              \<or> table_row (backup_json_roles (db e)) rl_id backupId roleId \<noteq> None
      then (case create_or_edit_role e backupId roleId s of (ok, s') \<Rightarrow> (RoleRestored ok, s'))
      else (RoleRowMissing, s))"

text \<open>
  \<open>restoreRole(backupId, roleId)\<close>: when no data is found it calls itself once on
  the latest backup of the target guild, if that is another backup; there the latest
  backup is the backup itself and the search ends.
\<close>

definition restoreRole :: "env \<Rightarrow> string \<Rightarrow> string \<Rightarrow> engine \<Rightarrow> bool \<times> engine" where
  "restoreRole e backupId roleId s =
     (case restoreRole_in e backupId roleId s of
        (RoleRestored ok, s') \<Rightarrow> (ok, s')
      | (RoleRowMissing, s') \<Rightarrow>
          (case getLatestBackup e (targetGuildId s') of
             None \<Rightarrow> (False, s')
           | Some latest \<Rightarrow>
               if latest \<noteq> backupId
               then (case restoreRole_in e latest roleId s' of
                       (RoleRestored ok, s'') \<Rightarrow> (ok, s'')
                     | (RoleRowMissing, s'') \<Rightarrow> (False, s''))
               else (False, s')))"

text \<open>The children loop of \<open>restoreCategoryAndChildren\<close>: each creation has its own \<open>catch\<close>.\<close>

fun create_children :: "env \<Rightarrow> live_guild \<Rightarrow> channel_data list \<Rightarrow> engine \<Rightarrow> engine" where
  "create_children e guild [] s = s"
| "create_children e guild (child # rest) s =
     (if find_channel guild (channel_id child) \<noteq> None then create_children e guild rest s
      else create_children e guild rest (snd (platform e (ChannelCreate (channel_id child)) s)))"

text \<open>
  \<open>restoreCategoryAndChildren(backupId, categoryId)\<close> has no handler of its own: a
  failing query or a rejected category creation rejects (\<open>Inl\<close>). It returns normally
  when the row is missing or is not a category.
\<close>

definition restoreCategoryAndChildren :: "env \<Rightarrow> string \<Rightarrow> string \<Rightarrow> engine \<Rightarrow> (call_error + unit) \<times> engine" where
  "restoreCategoryAndChildren e backupId categoryId s =
     (case query_row e (channel_tbl (db e)) channel_id backupId categoryId of
        Inl err \<Rightarrow> (Inl err, s)
      | Inr None \<Rightarrow> (Inr (), s)
      | Inr (Some categoryData) \<Rightarrow>
          if channel_type categoryData \<noteq> 4 then (Inr (), s)
          else (case client_guilds e (targetGuildId s) of
            None \<Rightarrow> (Inr (), s)
          | Some guild \<Rightarrow>
              (case (if find_channel guild categoryId = None
                     then platform e (ChannelCreate categoryId) s else (True, s)) of
                 (created, s1) \<Rightarrow>
                   if \<not> created then (Inl CallError, s1)
                   else (Inr (), create_children e guild
                           (filter (\<lambda>c. channel_parent c = Some categoryId)
                              (map snd (filter (\<lambda>(b, c). b = backupId) (channel_tbl (db e))))) s1))))"

subsection \<open>Restore orchestrator (GuardManager)\<close>

text \<open>A string that JavaScript takes as true: present and not empty.\<close>

definition truthy :: "string option \<Rightarrow> string option" where
  "truthy x = (case x of None \<Rightarrow> None | Some v \<Rightarrow> if v = [] then None else Some v)"

text \<open>
  \<open>let finalBackupId = backupId; if (!finalBackupId) { latest ...; finalBackupId = latestBackup.id }\<close>
  followed by the second \<open>if (!finalBackupId) return\<close>.
\<close>

definition resolve_backup :: "env \<Rightarrow> live_guild \<Rightarrow> string option \<Rightarrow> string option" where
  "resolve_backup e guild backupId =
     (case truthy backupId of
        Some b \<Rightarrow> Some b
      | None \<Rightarrow> truthy (getLatestBackup e (g_id guild)))"

text \<open>The loop of \<open>performRestore\<close> over the recent backups, skipping the one already tried.\<close>

fun try_older ::
  "(string \<Rightarrow> string \<Rightarrow> engine \<Rightarrow> bool \<times> engine) \<Rightarrow> string \<Rightarrow> string \<Rightarrow> string list \<Rightarrow> engine
     \<Rightarrow> bool \<times> engine" where
  "try_older restoreMethod finalBackupId targetId [] s = (False, s)"
| "try_older restoreMethod finalBackupId targetId (backup # rest) s =
     (if backup = finalBackupId then try_older restoreMethod finalBackupId targetId rest s
      else (case restoreMethod backup targetId s of
              (success, s') \<Rightarrow>
                if success then (True, s')
                else try_older restoreMethod finalBackupId targetId rest s'))"

text \<open>
  \<open>performRestore(guild, backupId, violation, restoreType, extractIdMethod, restoreMethod)\<close>;
  \<open>targetId\<close> is \<open>violation.targetId\<close>, which each \<open>extract...IdFromViolation\<close>
  returns when it is truthy and replaces by null otherwise.
\<close>

definition performRestore ::
  "env \<Rightarrow> live_guild \<Rightarrow> string option \<Rightarrow> string option \<Rightarrow> string
     \<Rightarrow> (string \<Rightarrow> string \<Rightarrow> engine \<Rightarrow> bool \<times> engine) \<Rightarrow> engine \<Rightarrow> engine" where
  "performRestore e guild backupId violation_targetId restoreType restoreMethod s =
     (case truthy violation_targetId of
        None \<Rightarrow> s
      | Some targetId \<Rightarrow>
          (let s1 = markSelfAction e (g_id guild) targetId s in
           case resolve_backup e guild backupId of
             None \<Rightarrow> s1
           | Some finalBackupId \<Rightarrow>
               (case restoreMethod finalBackupId targetId s1 of
                  (success, s2) \<Rightarrow>
                    if success then sendRestoreNotification guild restoreType targetId True s2
                    else (case getBackupsByGuild e (g_id guild) 10 of
                            Inl err \<Rightarrow> s2
                          | Inr recentBackups \<Rightarrow>
                              (case try_older restoreMethod finalBackupId targetId recentBackups s2 of
                                 (success', s3) \<Rightarrow>
                                   sendRestoreNotification guild restoreType targetId success' s3)))))"

definition restoreDeletedRole :: "env \<Rightarrow> live_guild \<Rightarrow> string option \<Rightarrow> string option \<Rightarrow> engine \<Rightarrow> engine" where
  "restoreDeletedRole e guild backupId violation_targetId s =
     performRestore e guild backupId violation_targetId ''role'' (restoreRole e) s"

text \<open>\<open>restoreDeletedEmoji\<close> and \<open>restoreDeletedSticker\<close>: one attempt on the resolved backup.\<close>

definition restoreDeletedEmoji :: "env \<Rightarrow> live_guild \<Rightarrow> string option \<Rightarrow> string option \<Rightarrow> engine \<Rightarrow> engine" where
  "restoreDeletedEmoji e guild backupId violation_targetId s =
     (case truthy violation_targetId of
        None \<Rightarrow> s
      | Some emojiId \<Rightarrow>
          (let s1 = markSelfAction e (g_id guild) emojiId s in
           case resolve_backup e guild backupId of
             None \<Rightarrow> s1
           | Some finalBackupId \<Rightarrow>
               (case restoreEmoji e finalBackupId emojiId s1 of
                  (success, s2) \<Rightarrow> sendRestoreNotification guild ''emoji'' emojiId success s2)))"

definition restoreDeletedSticker :: "env \<Rightarrow> live_guild \<Rightarrow> string option \<Rightarrow> string option \<Rightarrow> engine \<Rightarrow> engine" where
  "restoreDeletedSticker e guild backupId violation_targetId s =
     (case truthy violation_targetId of
        None \<Rightarrow> s
      | Some stickerId \<Rightarrow>
          (let s1 = markSelfAction e (g_id guild) stickerId s in
           case resolve_backup e guild backupId of
             None \<Rightarrow> s1
           | Some finalBackupId \<Rightarrow>
               (case restoreSticker e finalBackupId stickerId s1 of
                  (success, s2) \<Rightarrow> sendRestoreNotification guild ''sticker'' stickerId success s2)))"

text \<open>The search of \<open>restoreDeletedChannel\<close> for the channel's row in the older backups.\<close>

fun find_channel_data ::
  "env \<Rightarrow> string \<Rightarrow> string \<Rightarrow> string list \<Rightarrow> call_error + (channel_data \<times> string) option" where
  "find_channel_data e finalBackupId channelId [] = Inr None"
| "find_channel_data e finalBackupId channelId (backup # rest) =
     (if backup = finalBackupId then find_channel_data e finalBackupId channelId rest
      else (case query_row e (channel_tbl (db e)) channel_id backup channelId of
              Inl err \<Rightarrow> Inl err
            | Inr None \<Rightarrow> find_channel_data e finalBackupId channelId rest
            | Inr (Some channelData) \<Rightarrow> Inr (Some (channelData, backup))))"

text \<open>Its retries of \<open>restoreCategoryAndChildren\<close> on the other backups, each in its own \<open>try\<close>.\<close>

fun try_categories :: "env \<Rightarrow> string \<Rightarrow> string \<Rightarrow> string list \<Rightarrow> engine \<Rightarrow> bool \<times> engine" where
  "try_categories e foundBackupId categoryId [] s = (False, s)"
| "try_categories e foundBackupId categoryId (backup # rest) s =
     (if backup = foundBackupId then try_categories e foundBackupId categoryId rest s
      else (case restoreCategoryAndChildren e backup categoryId s of
              (Inr u, s') \<Rightarrow> (True, s')
            | (Inl err, s') \<Rightarrow> try_categories e foundBackupId categoryId rest s'))"

text \<open>
  \<open>restoreCategoryAndChildren\<close> with the retries of its \<open>catch\<close> block;
  \<open>getBackupsByGuild\<close> rejecting there reaches the outer \<open>catch\<close> (\<open>Inl\<close>).
\<close>

definition category_with_retries ::
  "env \<Rightarrow> live_guild \<Rightarrow> string \<Rightarrow> string \<Rightarrow> engine \<Rightarrow> (call_error + bool) \<times> engine" where
  "category_with_retries e guild foundBackupId categoryId s =
     (case restoreCategoryAndChildren e foundBackupId categoryId s of
        (Inr u, s') \<Rightarrow> (Inr True, s')
      | (Inl err, s') \<Rightarrow>
          (case getBackupsByGuild e (g_id guild) 10 of
             Inl err' \<Rightarrow> (Inl err', s')
           | Inr recentBackups \<Rightarrow>
               (case try_categories e foundBackupId categoryId recentBackups s' of
                  (success, s'') \<Rightarrow> (Inr success, s''))))"

text \<open>
  \<open>restoreDeletedChannel\<close>. For a category \<open>success\<close> is what the category restore
  gives. For any other channel the function restores the missing parent category and
  leaves \<open>success\<close> false.
\<close>

definition restoreDeletedChannel :: "env \<Rightarrow> live_guild \<Rightarrow> string option \<Rightarrow> string option \<Rightarrow> engine \<Rightarrow> engine" where
  "restoreDeletedChannel e guild backupId violation_targetId s =
     (case truthy violation_targetId of
        None \<Rightarrow> s
      | Some channelId \<Rightarrow>
          (let s1 = markSelfAction e (g_id guild) channelId s in
           case resolve_backup e guild backupId of
             None \<Rightarrow> s1
           | Some finalBackupId \<Rightarrow>
               (case (case query_row e (channel_tbl (db e)) channel_id finalBackupId channelId of
                        Inl err \<Rightarrow> Inl err
                      | Inr (Some channelData) \<Rightarrow> Inr (Some (channelData, finalBackupId))
                      | Inr None \<Rightarrow>
                          (case getBackupsByGuild e (g_id guild) 10 of
                             Inl err \<Rightarrow> Inl err
                           | Inr recentBackups \<Rightarrow>
                               find_channel_data e finalBackupId channelId recentBackups)) of
                  Inl err \<Rightarrow> s1
                | Inr None \<Rightarrow> sendRestoreNotification guild ''channel'' channelId False s1
                | Inr (Some (channelData, foundBackupId)) \<Rightarrow>
                    if channel_type channelData = 4
                    then (case category_with_retries e guild foundBackupId channelId s1 of
                            (Inl err, s2) \<Rightarrow> s2
                          | (Inr success, s2) \<Rightarrow>
                              sendRestoreNotification guild ''channel'' channelId success s2)
                    else (case truthy (channel_parent channelData) of
                            None \<Rightarrow> sendRestoreNotification guild ''channel'' channelId False s1
                          | Some parentId \<Rightarrow>
                              if find_channel guild parentId \<noteq> None
                              then sendRestoreNotification guild ''channel'' channelId False s1
                              else (case category_with_retries e guild foundBackupId parentId s1 of
                                      (Inl err, s2) \<Rightarrow> s2
                                    | (Inr restored, s2) \<Rightarrow>
                                        sendRestoreNotification guild ''channel'' channelId False s2)))))"

text \<open>
  \<open>restoreChanges(guild, violation)\<close>, the RESTORE action: a switch on the violation
  type; every other type has no restore.
\<close>

definition restoreChanges :: "env \<Rightarrow> live_guild \<Rightarrow> string \<Rightarrow> string option \<Rightarrow> engine \<Rightarrow> engine" where
  "restoreChanges e guild violationType violation_targetId s =
     (case getLatestBackup e (g_id guild) of
        None \<Rightarrow> s
      | Some latest \<Rightarrow>
          if violationType = ''role_delete_limit_exceeded'' \<or> violationType = ''role_delete''
          then restoreDeletedRole e guild (Some latest) violation_targetId s
          else if violationType = ''channel_delete_limit_exceeded'' \<or> violationType = ''channel_delete''
          then restoreDeletedChannel e guild (Some latest) violation_targetId s
          else if violationType = ''emoji_delete_limit_exceeded'' \<or> violationType = ''emoji_delete''
          then restoreDeletedEmoji e guild (Some latest) violation_targetId s
          else if violationType = ''sticker_delete_limit_exceeded'' \<or> violationType = ''sticker_delete''
          then restoreDeletedSticker e guild (Some latest) violation_targetId s
          else s)"

subsection \<open>Violation policy\<close>

text \<open>The violation object as \<open>executeAction\<close> and \<open>restoreChanges\<close> read it.\<close>

record violation =
  v_userId :: string
  v_violationType :: string
  v_description :: string
  v_severity :: severity
  v_targetId :: "string option"

definition executeAction :: "env \<Rightarrow> GuardAction \<Rightarrow> live_guild \<Rightarrow> string \<Rightarrow> violation \<Rightarrow> engine \<Rightarrow> engine" where
  "executeAction e action guild userId v s =
     (case action of
        LOG \<Rightarrow> s
      | NOTIFY \<Rightarrow> sendNotification guild userId (v_violationType v) (v_description v) (v_severity v) s
      | KICK \<Rightarrow> kickUser e userId s
      | BAN \<Rightarrow> banUser e userId s
      | REMOVE_ROLE \<Rightarrow> removeRoles e guild userId s
      | TIMEOUT \<Rightarrow> timeoutUser e userId s
      | RESTORE \<Rightarrow> restoreChanges e guild (v_violationType v) (v_targetId v) s
      | LOCKDOWN \<Rightarrow> lockdownGuild e guild s)"

text \<open>
  \<open>handleViolation(guild, userId, violationType, description, severity, targetId?)\<close>:
  the violation is logged, the action list chosen by the severity is executed in
  order, and the notification is sent after the loop.
\<close>

definition handleViolation ::
  "env \<Rightarrow> live_guild \<Rightarrow> string \<Rightarrow> string \<Rightarrow> string \<Rightarrow> severity \<Rightarrow> string option \<Rightarrow> engine \<Rightarrow> engine" where
  "handleViolation e guild userId violationType description sev targetId s =
     (case configs s (g_id guild) of
        None \<Rightarrow> s
      | Some config \<Rightarrow>
          (let v = \<lparr>v_userId = userId, v_violationType = violationType, v_description = description,
                    v_severity = sev, v_targetId = targetId\<rparr>;
               s1 = emit (ViolationDetected userId violationType description sev targetId) s;
               actions = (if sev = Critical then onViolation config else onSuspiciousActivity config);
               s2 = foldl (\<lambda>s' action. executeAction e action guild userId v s') s1 actions
           in sendNotification guild userId violationType description sev s2))"

subsection \<open>Restores of an updated entity\<close>

definition restoreRoleFromBackup :: "env \<Rightarrow> live_guild \<Rightarrow> string \<Rightarrow> engine \<Rightarrow> engine" where
  "restoreRoleFromBackup e guild roleId s =
     (let s1 = markSelfAction e (g_id guild) roleId s in
      case getLatestBackup e (g_id guild) of
        None \<Rightarrow> s1
      | Some latest \<Rightarrow>
          (case safe_row e (role_backup_tbl (db e)) rl_id latest roleId of
             None \<Rightarrow> s1
           | Some roleData \<Rightarrow>
               (case find_role guild roleId of
                  None \<Rightarrow> s1
                | Some role \<Rightarrow>
                    if \<not> g_me_manage_roles guild then s1
                    else if (case g_me_highest_position guild of
                               None \<Rightarrow> False
                             | Some botHighest \<Rightarrow> botHighest \<le> rl_position role) then s1
                    else if rl_name role \<noteq> rl_name roleData \<or> rl_color role \<noteq> rl_color roleData
                            \<or> rl_hoist role \<noteq> rl_hoist roleData
                            \<or> rl_mentionable role \<noteq> rl_mentionable roleData
                    then snd (platform e (RoleEdit roleId) s1)
                    else s1)))"

text \<open>\<open>channel.isTextBased()\<close> by channel type.\<close>

definition isTextBased :: "channel_data \<Rightarrow> bool" where
  "isTextBased c = (channel_type c \<in> {0, 2, 5, 10, 11, 12, 13})"

definition restoreChannelFromBackup :: "env \<Rightarrow> live_guild \<Rightarrow> string \<Rightarrow> engine \<Rightarrow> engine" where
  "restoreChannelFromBackup e guild channelId s =
     (let s1 = markSelfAction e (g_id guild) channelId s in
      case getLatestBackup e (g_id guild) of
        None \<Rightarrow> s1
      | Some latest \<Rightarrow>
          (case safe_row e (channel_tbl (db e)) channel_id latest channelId of
             None \<Rightarrow> s1
           | Some channelData \<Rightarrow>
               (case find_channel guild channelId of
                  None \<Rightarrow> s1
                | Some channel \<Rightarrow>
                    if isTextBased channel then snd (platform e (ChannelEdit channelId) s1) else s1)))"

definition restoreEmojiFromBackup :: "env \<Rightarrow> live_guild \<Rightarrow> string \<Rightarrow> engine \<Rightarrow> engine" where
  "restoreEmojiFromBackup e guild emojiId s =
     (let s1 = markSelfAction e (g_id guild) emojiId s in
      case getLatestBackup e (g_id guild) of
        None \<Rightarrow> s1
      | Some latest \<Rightarrow>
          (case safe_row e (emoji_tbl (db e)) er_id latest emojiId of
             None \<Rightarrow> s1
           | Some emojiData \<Rightarrow>
               if emojiId \<in> set (g_emojis guild) then snd (platform e (EmojiEdit emojiId) s1) else s1))"

definition restoreStickerFromBackup :: "env \<Rightarrow> live_guild \<Rightarrow> string \<Rightarrow> engine \<Rightarrow> engine" where
  "restoreStickerFromBackup e guild stickerId s =
     (let s1 = markSelfAction e (g_id guild) stickerId s in
      case getLatestBackup e (g_id guild) of
        None \<Rightarrow> s1
      | Some latest \<Rightarrow>
          (case safe_row e (sticker_tbl (db e)) er_id latest stickerId of
             None \<Rightarrow> s1
           | Some stickerData \<Rightarrow>
               if stickerId \<in> set (g_stickers guild) then snd (platform e (StickerEdit stickerId) s1) else s1))"

text \<open>
  \<open>restoreGuildSettings\<close>: \<open>getGuildFromBackup\<close> goes through \<open>getDataFromTable\<close>
  with no item id and so returns an array of rows, empty when the query fails: the
  test \<open>!guildData\<close> is never true, and \<open>guild.edit\<close> follows whenever a latest backup
  exists.
\<close>

definition restoreGuildSettings :: "env \<Rightarrow> live_guild \<Rightarrow> engine \<Rightarrow> engine" where
  "restoreGuildSettings e guild s =
     (let s1 = markSelfAction e (g_id guild) ''guild_settings'' s in
      case getLatestBackup e (g_id guild) of
        None \<Rightarrow> s1
      | Some latest \<Rightarrow> snd (platform e GuildEdit s1))"

text \<open>\<open>distributeRoleToMembersFromData\<close>: one \<open>try\<close> per member.\<close>

fun distributeRoleToMembersFromData :: "env \<Rightarrow> string \<Rightarrow> string list \<Rightarrow> engine \<Rightarrow> engine" where
  "distributeRoleToMembersFromData e roleId [] s = s"
| "distributeRoleToMembersFromData e roleId (userId # rest) s =
     (let s1 = emit (FetchMember userId) s in
      case members_api e userId of
        None \<Rightarrow> distributeRoleToMembersFromData e roleId rest s1
      | Some roles \<Rightarrow>
          if roleId \<in> set roles then distributeRoleToMembersFromData e roleId rest s1
          else distributeRoleToMembersFromData e roleId rest
                 (snd (platform e (MemberRoleAdd userId roleId) s1)))"

section \<open>Guard engine: the per-event handlers\<close>

text \<open>
  Where a handler run ends: at one of its \<open>return\<close> statements (named after the gate
  of the per-event state machine it belongs to), after its remediation
  (\<open>Acted\<close>), or with a rejection that no \<open>catch\<close> of the handler holds (\<open>Escaped\<close>).
  \<open>NotDispatched\<close>: the listener did not call the handler.
\<close>

datatype exit_point =
    NotDispatched
  | ConfigDropped
  | SelfCheckDropped
  | RestorationLockDropped
  | AttributionDropped
  | BotCheckDropped
  | WhitelistDropped
  | ChangeDetectionDropped
  | TargetMismatchDropped
  | RecentChangeDropped
  | NothingToDo
  | Counted
  | Acted
  | Escaped

text \<open>
  \<open>handleGenericEvent(guild, targetId, eventType, auditEvent, action)\<close>. The action
  runs inside the function's \<open>try\<close>: it is a state transformer that stops at its own
  first rejected call.
\<close>

definition handleGenericEvent ::
  "env \<Rightarrow> live_guild \<Rightarrow> string \<Rightarrow> AuditLogEvent \<Rightarrow> (engine \<Rightarrow> engine) \<Rightarrow> engine \<Rightarrow> exit_point \<times> engine" where
  "handleGenericEvent e guild targetId auditEvent action s =
     (case configs s (g_id guild) of
        None \<Rightarrow> (ConfigDropped, s)
      | Some config \<Rightarrow>
          if \<not> enabled config then (ConfigDropped, s)
          else if isSelfAction s (g_id guild) targetId then (SelfCheckDropped, s)
          else (case getAuditLog e auditEvent s of
                  (None, s1) \<Rightarrow> (AttributionDropped, s1)
                | (Some auditLog, s1) \<Rightarrow>
                    if isBotAction e (executor_or auditLog []) then (BotCheckDropped, s1)
                    else if isWhitelisted e s1 (executor_or auditLog []) (g_id guild)
                    then (WhitelistDropped, s1)
                    else (Acted, action s1)))"

text \<open>An emoji or sticker of an event: its id and name.\<close>

record item =
  item_id :: string
  item_name :: string

text \<open>An action that deletes the created entity and, if that succeeds, reports the violation.\<close>

definition delete_then_report ::
  "env \<Rightarrow> live_guild \<Rightarrow> platform_call \<Rightarrow> string \<Rightarrow> string \<Rightarrow> string \<Rightarrow> engine \<Rightarrow> engine" where
  "delete_then_report e guild del violationType name ident s =
     (case platform e del s of
        (ok, s1) \<Rightarrow>
          if ok then handleViolation e guild ''unknown'' violationType name Medium (Some ident) s1
          else s1)"

definition handleRoleCreate :: "env \<Rightarrow> live_guild \<Rightarrow> role_data \<Rightarrow> engine \<Rightarrow> exit_point \<times> engine" where
  "handleRoleCreate e guild role s =
     handleGenericEvent e guild (rl_id role) AL_RoleCreate
       (delete_then_report e guild (RoleDelete (rl_id role)) ''role_create_blocked'' (rl_name role) (rl_id role)) s"

definition handleChannelCreate :: "env \<Rightarrow> live_guild \<Rightarrow> channel_data \<Rightarrow> engine \<Rightarrow> exit_point \<times> engine" where
  "handleChannelCreate e guild channel s =
     handleGenericEvent e guild (channel_id channel) AL_ChannelCreate
       (delete_then_report e guild (ChannelDelete (channel_id channel)) ''channel_create_blocked''
          (channel_name channel) (channel_id channel)) s"

definition handleEmojiCreate :: "env \<Rightarrow> live_guild \<Rightarrow> item \<Rightarrow> engine \<Rightarrow> exit_point \<times> engine" where
  "handleEmojiCreate e guild emoji s =
     handleGenericEvent e guild (item_id emoji) AL_EmojiCreate
       (delete_then_report e guild (EmojiDelete (item_id emoji)) ''emoji_create_blocked''
          (item_name emoji) (item_id emoji)) s"

definition handleStickerCreate :: "env \<Rightarrow> live_guild \<Rightarrow> item \<Rightarrow> engine \<Rightarrow> exit_point \<times> engine" where
  "handleStickerCreate e guild sticker s =
     handleGenericEvent e guild (item_id sticker) AL_StickerCreate
       (delete_then_report e guild (StickerDelete (item_id sticker)) ''sticker_create_blocked''
          (item_name sticker) (item_id sticker)) s"

definition handleEmojiUpdate :: "env \<Rightarrow> live_guild \<Rightarrow> item \<Rightarrow> item \<Rightarrow> engine \<Rightarrow> exit_point \<times> engine" where
  "handleEmojiUpdate e guild oldEmoji newEmoji s =
     handleGenericEvent e guild (item_id newEmoji) AL_EmojiUpdate
       (\<lambda>s1. handleViolation e guild ''unknown'' ''emoji_update_blocked'' (item_name newEmoji) Medium
                (Some (item_id newEmoji)) (restoreEmojiFromBackup e guild (item_id newEmoji) s1)) s"

definition handleEmojiDelete :: "env \<Rightarrow> live_guild \<Rightarrow> item \<Rightarrow> engine \<Rightarrow> exit_point \<times> engine" where
  "handleEmojiDelete e guild emoji s =
     handleGenericEvent e guild (item_id emoji) AL_EmojiDelete
       (\<lambda>s1. handleViolation e guild ''unknown'' ''emoji_delete_blocked'' (item_name emoji) High
                (Some (item_id emoji)) (restoreDeletedEmoji e guild None (Some (item_id emoji)) s1)) s"

definition handleStickerUpdate :: "env \<Rightarrow> live_guild \<Rightarrow> item \<Rightarrow> item \<Rightarrow> engine \<Rightarrow> exit_point \<times> engine" where
  "handleStickerUpdate e guild oldSticker newSticker s =
     handleGenericEvent e guild (item_id newSticker) AL_StickerUpdate
       (\<lambda>s1. handleViolation e guild ''unknown'' ''sticker_update_blocked'' (item_name newSticker) Medium
                (Some (item_id newSticker)) (restoreStickerFromBackup e guild (item_id newSticker) s1)) s"

definition handleStickerDelete :: "env \<Rightarrow> live_guild \<Rightarrow> item \<Rightarrow> engine \<Rightarrow> exit_point \<times> engine" where
  "handleStickerDelete e guild sticker s =
     handleGenericEvent e guild (item_id sticker) AL_StickerDelete
       (\<lambda>s1. handleViolation e guild ''unknown'' ''sticker_delete_blocked'' (item_name sticker) High
                (Some (item_id sticker)) (restoreDeletedSticker e guild None (Some (item_id sticker)) s1)) s"

subsection \<open>Role handlers\<close>

text \<open>
  \<open>handleRoleUpdate(oldRole, newRole)\<close>. The permission bit fields are compared as
  values. After the gates the change is recorded under
  \<open>guild:role:executor\<close>, the role is restored, the violation is handled, and the
  restoration lock is released by a timer 5 seconds later.
\<close>

definition roleChanged :: "role_data \<Rightarrow> role_data \<Rightarrow> bool" where
  "roleChanged oldRole newRole =
     (rl_name oldRole \<noteq> rl_name newRole \<or> rl_color oldRole \<noteq> rl_color newRole
      \<or> rl_hoist oldRole \<noteq> rl_hoist newRole \<or> rl_mentionable oldRole \<noteq> rl_mentionable newRole
      \<or> rl_permissions oldRole \<noteq> rl_permissions newRole)"

text \<open>\<open>recentChange && Date.now() - recentChange.timestamp < 5000\<close>\<close>

definition recently_changed :: "env \<Rightarrow> engine \<Rightarrow> string \<Rightarrow> bool" where
  "recently_changed e s changeKey =
     (case recentRoleChanges s changeKey of
        None \<Rightarrow> False
      | Some (timestamp, executorId) \<Rightarrow> now e - timestamp < 5000)"

definition handleRoleUpdate :: "env \<Rightarrow> live_guild \<Rightarrow> role_data \<Rightarrow> role_data \<Rightarrow> engine \<Rightarrow> exit_point \<times> engine" where
  "handleRoleUpdate e guild oldRole newRole s =
     (case configs s (g_id guild) of
        None \<Rightarrow> (ConfigDropped, s)
      | Some config \<Rightarrow>
          if \<not> enabled config \<or> \<not> protection_roles config then (ConfigDropped, s)
          else if isSelfAction s (g_id guild) (rl_id newRole) then (SelfCheckDropped, s)
          else if g_id guild @ '':'' @ rl_id newRole @ '':restoration'' \<in> restorationInProgress s
          then (RestorationLockDropped, s)
          else if g_id guild @ '':'' @ rl_id newRole @ '':recent_restore'' \<in> selfActions s
          then (SelfCheckDropped, s)
          else (case getAuditLog e AL_RoleUpdate s of
                  (None, s1) \<Rightarrow> (AttributionDropped, s1)
                | (Some auditLog, s1) \<Rightarrow>
                    if isBotAction e (executor_or auditLog []) then (BotCheckDropped, s1)
                    else (let executorId = executor_or auditLog [] in
                      if isWhitelisted e s1 executorId (g_id guild) then (WhitelistDropped, s1)
                      else (case checkWhitelist e (g_id guild) executorId ''role_update'' s1 of
                        (isDbWhitelisted, s2) \<Rightarrow>
                          if isDbWhitelisted then (WhitelistDropped, s2)
                          else if \<not> roleChanged oldRole newRole then (ChangeDetectionDropped, s2)
                          else if (case truthy (target_id auditLog) of
                                     None \<Rightarrow> False
                                   | Some t \<Rightarrow> t \<noteq> rl_id newRole) then (TargetMismatchDropped, s2)
                          else (let changeKey = g_id guild @ '':'' @ rl_id newRole @ '':'' @ executorId in
                            if recently_changed e s2 changeKey then (RecentChangeDropped, s2)
                            else (let restorationKey = g_id guild @ '':'' @ rl_id newRole @ '':restoration'';
                                      recentRestoreKey = g_id guild @ '':'' @ rl_id newRole @ '':recent_restore'';
                                      s3 = s2\<lparr>recentRoleChanges :=
                                                (recentRoleChanges s2)(changeKey \<mapsto> (now e, executorId))\<rparr>;
                                      s4 = s3\<lparr>restorationInProgress := insert restorationKey (restorationInProgress s3),
                                              selfActions := insert recentRestoreKey (selfActions s3)\<rparr>;
                                      s5 = setTimeout e (DeleteSelfAction recentRestoreKey) 30000 s4;
                                      s6 = restoreRoleFromBackup e guild (rl_id newRole) s5;
                                      s7 = handleViolation e guild executorId ''role_update_blocked''
                                             (rl_name newRole) Medium (Some (rl_id newRole)) s6
                                  in (Acted, setTimeout e (DeleteRestoration restorationKey) 5000 s7)))))))"

text \<open>
  \<open>handleRoleDelete(role)\<close>: the role is recreated from the deleted role's own fields
  and granted again to \<open>role.members\<close>; a rejected creation or backup sends the failure
  notification instead. The violation is handled in both cases.
\<close>

definition handleRoleDelete :: "env \<Rightarrow> live_guild \<Rightarrow> role_data \<Rightarrow> engine \<Rightarrow> exit_point \<times> engine" where
  "handleRoleDelete e guild role s =
     (if g_id guild \<noteq> targetGuildId s then (ConfigDropped, s)
      else if isSelfAction s (g_id guild) (rl_id role) then (SelfCheckDropped, s)
      else (case getAuditLog e AL_RoleDelete s of
        (auditLog, s1) \<Rightarrow>
          (let executorId = (case auditLog of None \<Rightarrow> None | Some a \<Rightarrow> truthy (executor_id a)) in
           case (case executorId of
                   None \<Rightarrow> (False, s1)
                 | Some x \<Rightarrow> checkWhitelist e (g_id guild) x ''role_delete'' s1) of
             (dbWhitelisted, s2) \<Rightarrow>
               if dbWhitelisted then (WhitelistDropped, s2)
               else (let s3 = markSelfAction e (g_id guild) (rl_id role) s2;
                         recentDeletionKey = g_id guild @ '':'' @ rl_id role @ '':recent_deletion'';
                         s4 = setTimeout e (DeleteSelfAction recentDeletionKey) 15000
                                (s3\<lparr>selfActions := insert recentDeletionKey (selfActions s3)\<rparr>);
                         s5 = (case platform e (RoleCreate (rl_id role)) s4 of
                                 (created, s') \<Rightarrow>
                                   if \<not> created
                                   then sendRestoreNotification guild ''role'' (rl_id role) False s'
                                   else (case platform e CreateBackup
                                                (distributeRoleToMembersFromData e (fresh_id e)
                                                   (rl_members role) s') of
                                           (saved, s'') \<Rightarrow>
                                             if saved
                                             then sendRestoreNotification guild ''role'' (fresh_id e) True s''
                                             else sendRestoreNotification guild ''role'' (rl_id role) False s''))
                     in (Acted, handleViolation e guild
                                  (case executorId of None \<Rightarrow> ''unknown'' | Some x \<Rightarrow> x)
                                  ''role_delete_blocked'' (rl_name role) High (Some (rl_id role)) s5)))))"

subsection \<open>Channel handlers\<close>

definition channelChanged :: "channel_data \<Rightarrow> channel_data \<Rightarrow> bool" where
  "channelChanged oldChannel newChannel =
     (channel_name oldChannel \<noteq> channel_name newChannel
      \<or> channel_topic oldChannel \<noteq> channel_topic newChannel
      \<or> channel_nsfw oldChannel \<noteq> channel_nsfw newChannel
      \<or> channel_rateLimitPerUser oldChannel \<noteq> channel_rateLimitPerUser newChannel)"

definition handleChannelUpdate ::
  "env \<Rightarrow> live_guild \<Rightarrow> channel_data \<Rightarrow> channel_data \<Rightarrow> engine \<Rightarrow> exit_point \<times> engine" where
  "handleChannelUpdate e guild oldChannel newChannel s =
     (if isSelfAction s (g_id guild) (channel_id newChannel) then (SelfCheckDropped, s)
      else (case getAuditLog e AL_ChannelUpdate s of
              (None, s1) \<Rightarrow> (AttributionDropped, s1)
            | (Some auditLog, s1) \<Rightarrow>
                if isBotAction e (executor_or auditLog []) then (BotCheckDropped, s1)
                else if isWhitelisted e s1 (executor_or auditLog []) (g_id guild) then (WhitelistDropped, s1)
                else if \<not> channelChanged oldChannel newChannel then (ChangeDetectionDropped, s1)
                else if (case truthy (target_id auditLog) of
                           None \<Rightarrow> False
                         | Some t \<Rightarrow> t \<noteq> channel_id newChannel) then (TargetMismatchDropped, s1)
                else (let changeKey = g_id guild @ '':'' @ channel_id newChannel @ '':update'' in
                  if recently_changed e s1 changeKey then (RecentChangeDropped, s1)
                  else (let s2 = s1\<lparr>recentRoleChanges :=
                                      (recentRoleChanges s1)(changeKey \<mapsto> (now e, executor_or auditLog []))\<rparr>;
                            s3 = restoreChannelFromBackup e guild (channel_id newChannel) s2
                        in (Acted, handleViolation e guild (executor_or auditLog ''unknown'')
                                     ''channel_update_blocked'' (channel_name newChannel) Medium
                                     (Some (channel_id newChannel)) s3)))))"

text \<open>
  \<open>handleChannelDelete(channel)\<close>: the restoration lock is taken before the audit
  lookup; every early return inside the \<open>try\<close> releases it, and the \<open>finally\<close> block
  schedules its release once more.
\<close>

definition handleChannelDelete :: "env \<Rightarrow> live_guild \<Rightarrow> channel_data \<Rightarrow> engine \<Rightarrow> exit_point \<times> engine" where
  "handleChannelDelete e guild channel s =
     (if isSelfAction s (g_id guild) (channel_id channel) then (SelfCheckDropped, s)
      else (let restorationKey = g_id guild @ '':'' @ channel_id channel @ '':restoration'' in
        if restorationKey \<in> restorationInProgress s then (RestorationLockDropped, s)
        else (let s0 = s\<lparr>restorationInProgress := insert restorationKey (restorationInProgress s)\<rparr>;
                  release = (\<lambda>s'. setTimeout e (DeleteRestoration restorationKey) 5000
                                     (s'\<lparr>restorationInProgress := restorationInProgress s' - {restorationKey}\<rparr>))
              in case getAuditLog e AL_ChannelDelete s0 of
                   (None, s1) \<Rightarrow> (AttributionDropped, release s1)
                 | (Some auditLog, s1) \<Rightarrow>
                     if isBotAction e (executor_or auditLog []) then (BotCheckDropped, release s1)
                     else if isWhitelisted e s1 (executor_or auditLog []) (g_id guild)
                     then (WhitelistDropped, release s1)
                     else if (case truthy (target_id auditLog) of
                                None \<Rightarrow> False
                              | Some t \<Rightarrow> t \<noteq> channel_id channel) then (TargetMismatchDropped, release s1)
                     else (let changeKey = g_id guild @ '':'' @ channel_id channel @ '':delete'' in
                       if recently_changed e s1 changeKey then (RecentChangeDropped, release s1)
                       else (let s2 = s1\<lparr>recentRoleChanges :=
                                           (recentRoleChanges s1)(changeKey \<mapsto> (now e, executor_or auditLog []))\<rparr>;
                                 s3 = restoreDeletedChannel e guild None (Some (channel_id channel)) s2;
                                 s4 = handleViolation e guild (executor_or auditLog ''unknown'')
                                        ''channel_delete_blocked'' (channel_name channel) High
                                        (Some (channel_id channel)) s3
                             in (Acted, setTimeout e (DeleteRestoration restorationKey) 5000 s4))))))"

subsection \<open>Webhook, guild, member and invite handlers\<close>

text \<open>
  The loop of \<open>handleWebhookUpdate\<close> over the channel's webhooks; false when a
  deletion is rejected, which ends the \<open>try\<close> block.
\<close>

fun delete_webhooks :: "env \<Rightarrow> string option \<Rightarrow> webhook_data list \<Rightarrow> engine \<Rightarrow> bool \<times> engine" where
  "delete_webhooks e executor [] s = (True, s)"
| "delete_webhooks e executor (webhook # rest) s =
     (if webhook_owner webhook = executor
      then (case platform e (WebhookDelete (webhook_id webhook)) s of
              (ok, s') \<Rightarrow> if ok then delete_webhooks e executor rest s' else (False, s'))
      else delete_webhooks e executor rest s)"

definition handleWebhookUpdate :: "env \<Rightarrow> live_guild \<Rightarrow> channel_data \<Rightarrow> engine \<Rightarrow> exit_point \<times> engine" where
  "handleWebhookUpdate e guild channel s =
     (case configs s (g_id guild) of
        None \<Rightarrow> (ConfigDropped, s)
      | Some config \<Rightarrow>
          if \<not> enabled config \<or> \<not> protection_webhooks config then (ConfigDropped, s)
          else (case getAuditLog e AL_WebhookCreate s of
                  (None, s1) \<Rightarrow> (AttributionDropped, s1)
                | (Some auditLog, s1) \<Rightarrow>
                    if isBotAction e (executor_or auditLog []) then (BotCheckDropped, s1)
                    else if isWhitelisted e s1 (executor_or auditLog []) (g_id guild)
                    then (WhitelistDropped, s1)
                    else (case webhooks_api e (channel_id channel) of
                            Inl err \<Rightarrow> (Acted, emit (FetchWebhooks (channel_id channel)) s1)
                          | Inr webhooks \<Rightarrow>
                              (case delete_webhooks e (executor_id auditLog) webhooks
                                      (emit (FetchWebhooks (channel_id channel)) s1) of
                                 (ok, s2) \<Rightarrow>
                                   if ok
                                   then (Acted, handleViolation e guild (executor_or auditLog ''unknown'')
                                                  ''webhook_create_blocked'' [] Medium None s2)
                                   else (Acted, s2)))))"

definition handleGuildUpdate :: "env \<Rightarrow> live_guild \<Rightarrow> live_guild \<Rightarrow> engine \<Rightarrow> exit_point \<times> engine" where
  "handleGuildUpdate e oldGuild newGuild s =
     (case configs s (g_id newGuild) of
        None \<Rightarrow> (ConfigDropped, s)
      | Some config \<Rightarrow>
          if \<not> enabled config \<or> \<not> protection_guild config then (ConfigDropped, s)
          else (case getAuditLog e AL_GuildUpdate s of
                  (None, s1) \<Rightarrow> (AttributionDropped, s1)
                | (Some auditLog, s1) \<Rightarrow>
                    if isBotAction e (executor_or auditLog []) then (BotCheckDropped, s1)
                    else if isWhitelisted e s1 (executor_or auditLog []) (g_id newGuild)
                    then (WhitelistDropped, s1)
                    else (Acted, handleViolation e newGuild (executor_or auditLog ''unknown'')
                                   ''guild_update_blocked'' [] High None
                                   (restoreGuildSettings e newGuild s1))))"

definition handleGuildDelete :: "env \<Rightarrow> live_guild \<Rightarrow> engine \<Rightarrow> exit_point \<times> engine" where
  "handleGuildDelete e guild s =
     (case configs s (g_id guild) of
        None \<Rightarrow> (ConfigDropped, s)
      | Some config \<Rightarrow>
          if \<not> enabled config \<or> \<not> protection_guild config then (ConfigDropped, s)
          else (case getAuditLog e AL_GuildUpdate s of
                  (None, s1) \<Rightarrow> (AttributionDropped, s1)
                | (Some auditLog, s1) \<Rightarrow>
                    if isBotAction e (executor_or auditLog []) then (BotCheckDropped, s1)
                    else if isWhitelisted e s1 (executor_or auditLog []) (g_id guild)
                    then (WhitelistDropped, s1)
                    else (Acted, handleViolation e guild (executor_or auditLog ''unknown'')
                                   ''guild_delete'' [] Critical None s1)))"

text \<open>A guild member of an event.\<close>

record member_payload =
  mp_id :: string
  mp_tag :: string
  mp_partial :: bool
  mp_roles :: "string list"
  mp_createdTimestamp :: int

definition handleMemberJoin :: "env \<Rightarrow> live_guild \<Rightarrow> member_payload \<Rightarrow> engine \<Rightarrow> exit_point \<times> engine" where
  "handleMemberJoin e guild member s =
     (case configs s (g_id guild) of
        None \<Rightarrow> (ConfigDropped, s)
      | Some config \<Rightarrow>
          if \<not> enabled config \<or> \<not> protection_members config then (ConfigDropped, s)
          else if now e - mp_createdTimestamp member < 24 * 60 * 60 * 1000
          then (Acted, handleViolation e guild (mp_id member) ''suspicious_member_join''
                         (mp_tag member) Medium None s)
          else (NothingToDo, s))"

definition handleMemberUpdate ::
  "env \<Rightarrow> live_guild \<Rightarrow> member_payload \<Rightarrow> member_payload \<Rightarrow> engine \<Rightarrow> exit_point \<times> engine" where
  "handleMemberUpdate e guild oldMember newMember s =
     (case configs s (g_id guild) of
        None \<Rightarrow> (ConfigDropped, s)
      | Some config \<Rightarrow>
          if \<not> enabled config \<or> \<not> protection_members config then (ConfigDropped, s)
          else (case getAuditLog e AL_MemberUpdate s of
                  (None, s1) \<Rightarrow> (AttributionDropped, s1)
                | (Some auditLog, s1) \<Rightarrow>
                    if isBotAction e (executor_or auditLog []) then (BotCheckDropped, s1)
                    else if isWhitelisted e s1 (executor_or auditLog []) (g_id guild)
                    then (WhitelistDropped, s1)
                    else if filter (\<lambda>roleId. roleId \<notin> set (mp_roles oldMember)) (mp_roles newMember) \<noteq> []
                    then (Acted, handleViolation e guild (executor_or auditLog ''unknown'')
                                   ''role_addition'' (mp_tag newMember) Medium None s1)
                    else (NothingToDo, s1)))"

definition handleMemberLeave :: "env \<Rightarrow> live_guild \<Rightarrow> member_payload \<Rightarrow> engine \<Rightarrow> exit_point \<times> engine" where
  "handleMemberLeave e guild member s =
     (case configs s (g_id guild) of
        None \<Rightarrow> (ConfigDropped, s)
      | Some config \<Rightarrow>
          if \<not> enabled config \<or> \<not> protection_members config then (ConfigDropped, s)
          else (case getAuditLog e AL_MemberKick s of
                  (None, s1) \<Rightarrow> (AttributionDropped, s1)
                | (Some auditLog, s1) \<Rightarrow>
                    if isWhitelisted e s1 (executor_or auditLog []) (g_id guild)
                    then (WhitelistDropped, s1)
                    else (Acted, handleViolation e guild (executor_or auditLog ''unknown'')
                                   ''member_kick'' (mp_tag member) Medium None s1)))"

text \<open>
  The two counter calls of the GuardManager; both pass the rejection of the
  RedisManager on to their caller.
\<close>

definition getViolationCount :: "string \<Rightarrow> string \<Rightarrow> engine \<Rightarrow> (redis_error + jsnum) \<times> engine" where
  "getViolationCount userId guildId s =
     (getUserViolationCount (redis s) userId guildId,
      emit (RedisGet (createGuardKey ''violations'' guildId userId)) s)"

definition incrementViolationCount :: "string \<Rightarrow> string \<Rightarrow> engine \<Rightarrow> (redis_error + jsnum) \<times> engine" where
  "incrementViolationCount userId guildId s =
     (let key = createGuardKey ''violations'' guildId userId in
      case incrementUserViolationCount (redis s) userId guildId 3600 of
        Inl err \<Rightarrow> (Inl err, emit (RedisGet key) s)
      | Inr (newCount, c') \<Rightarrow> (Inr newCount, (emit (RedisSet key) (emit (RedisGet key) s))\<lparr>redis := c'\<rparr>))"

text \<open>\<open>violationCount >= limit\<close>: false for NaN.\<close>

definition js_ge :: "jsnum \<Rightarrow> int \<Rightarrow> bool" where
  "js_ge x limit = (case x of NaN \<Rightarrow> False | Num n \<Rightarrow> limit \<le> n)"

text \<open>\<open>handleInviteCreate(invite)\<close> has no \<open>try\<close> around its counter calls.\<close>

definition handleInviteCreate :: "env \<Rightarrow> live_guild \<Rightarrow> engine \<Rightarrow> exit_point \<times> engine" where
  "handleInviteCreate e guild s =
     (case configs s (g_id guild) of
        None \<Rightarrow> (ConfigDropped, s)
      | Some config \<Rightarrow>
          if \<not> enabled config \<or> \<not> protection_invites config then (ConfigDropped, s)
          else (case getAuditLog e AL_InviteCreate s of
                  (None, s1) \<Rightarrow> (AttributionDropped, s1)
                | (Some auditLog, s1) \<Rightarrow>
                    if isBotAction e (executor_or auditLog []) then (BotCheckDropped, s1)
                    else if isWhitelisted e s1 (executor_or auditLog []) (g_id guild)
                    then (WhitelistDropped, s1)
                    else (case getViolationCount (executor_or auditLog ''unknown'') (g_id guild) s1 of
                            (Inl err, s2) \<Rightarrow> (Escaped, s2)
                          | (Inr violationCount, s2) \<Rightarrow>
                              if js_ge violationCount (maxInviteCreations config)
                              then (Acted, handleViolation e guild (executor_or auditLog ''unknown'')
                                             ''invite_create_limit_exceeded'' [] High None s2)
                              else (case incrementViolationCount (executor_or auditLog ''unknown'')
                                           (g_id guild) s2 of
                                      (Inl err, s3) \<Rightarrow> (Escaped, s3)
                                    | (Inr newCount, s3) \<Rightarrow> (Counted, s3)))))"

text \<open>\<open>handleInviteDelete\<close> only writes a log line.\<close>

definition handleInviteDelete :: "env \<Rightarrow> live_guild \<Rightarrow> engine \<Rightarrow> exit_point \<times> engine" where
  "handleInviteDelete e guild s = (NothingToDo, s)"

section \<open>Guard engine: the listeners of setupEventHandlers\<close>

text \<open>
  An inbound gateway event with the objects the listener receives. A channel, sticker
  or invite may have no guild.
\<close>

datatype event =
    EvGuildUpdate live_guild live_guild
  | EvGuildDelete live_guild
  | EvChannelCreate "live_guild option" channel_data
  | EvChannelUpdate "live_guild option" channel_data channel_data
  | EvChannelDelete "live_guild option" channel_data
  | EvRoleCreate live_guild role_data
  | EvRoleUpdate live_guild role_data role_data
  | EvRoleDelete live_guild role_data
  | EvGuildMemberAdd live_guild member_payload
  | EvGuildMemberUpdate live_guild member_payload member_payload
  | EvGuildMemberRemove live_guild member_payload
  | EvEmojiCreate live_guild item
  | EvEmojiUpdate live_guild item item
  | EvEmojiDelete live_guild item
  | EvStickerCreate "live_guild option" item
  | EvStickerUpdate "live_guild option" item item
  | EvStickerDelete "live_guild option" item
  | EvWebhookUpdate "live_guild option" channel_data
  | EvInviteCreate "live_guild option"
  | EvInviteDelete "live_guild option"

text \<open>The guild id the listener compares with \<open>targetGuildId\<close> (of the new object, for an update).\<close>

fun event_guild_id :: "event \<Rightarrow> string option" where
  "event_guild_id (EvGuildUpdate oldGuild newGuild) = Some (g_id newGuild)"
| "event_guild_id (EvGuildDelete guild) = Some (g_id guild)"
| "event_guild_id (EvChannelCreate guild channel) = map_option g_id guild"
| "event_guild_id (EvChannelUpdate guild oldChannel newChannel) = map_option g_id guild"
| "event_guild_id (EvChannelDelete guild channel) = map_option g_id guild"
| "event_guild_id (EvRoleCreate guild role) = Some (g_id guild)"
| "event_guild_id (EvRoleUpdate guild oldRole newRole) = Some (g_id guild)"
| "event_guild_id (EvRoleDelete guild role) = Some (g_id guild)"
| "event_guild_id (EvGuildMemberAdd guild member) = Some (g_id guild)"
| "event_guild_id (EvGuildMemberUpdate guild oldMember newMember) = Some (g_id guild)"
| "event_guild_id (EvGuildMemberRemove guild member) = Some (g_id guild)"
| "event_guild_id (EvEmojiCreate guild emoji) = Some (g_id guild)"
| "event_guild_id (EvEmojiUpdate guild oldEmoji newEmoji) = Some (g_id guild)"
| "event_guild_id (EvEmojiDelete guild emoji) = Some (g_id guild)"
| "event_guild_id (EvStickerCreate guild sticker) = map_option g_id guild"
| "event_guild_id (EvStickerUpdate guild oldSticker newSticker) = map_option g_id guild"
| "event_guild_id (EvStickerDelete guild sticker) = map_option g_id guild"
| "event_guild_id (EvWebhookUpdate guild channel) = map_option g_id guild"
| "event_guild_id (EvInviteCreate guild) = map_option g_id guild"
| "event_guild_id (EvInviteDelete guild) = map_option g_id guild"

text \<open>A listener on an object whose guild may be missing.\<close>

definition in_target ::
  "engine \<Rightarrow> live_guild option \<Rightarrow> (live_guild \<Rightarrow> engine \<Rightarrow> exit_point \<times> engine) \<Rightarrow> exit_point \<times> engine" where
  "in_target s guild handler =
     (case guild of
        None \<Rightarrow> (NotDispatched, s)
      | Some g \<Rightarrow> if g_id g = targetGuildId s then handler g s else (NotDispatched, s))"

fun on_event :: "env \<Rightarrow> event \<Rightarrow> engine \<Rightarrow> exit_point \<times> engine" where
  "on_event e (EvGuildUpdate oldGuild newGuild) s =
     (if g_id newGuild = targetGuildId s then handleGuildUpdate e oldGuild newGuild s else (NotDispatched, s))"
| "on_event e (EvGuildDelete guild) s =
     (if g_id guild = targetGuildId s then handleGuildDelete e guild s else (NotDispatched, s))"
| "on_event e (EvChannelCreate guild channel) s =
     in_target s guild (\<lambda>g. handleChannelCreate e g channel)"
| "on_event e (EvChannelUpdate guild oldChannel newChannel) s =
     in_target s guild (\<lambda>g. handleChannelUpdate e g oldChannel newChannel)"
| "on_event e (EvChannelDelete guild channel) s =
     in_target s guild (\<lambda>g. handleChannelDelete e g channel)"
| "on_event e (EvRoleCreate guild role) s =
     (if g_id guild = targetGuildId s then handleRoleCreate e guild role s else (NotDispatched, s))"
| "on_event e (EvRoleUpdate guild oldRole newRole) s =
     (if g_id guild = targetGuildId s then handleRoleUpdate e guild oldRole newRole s else (NotDispatched, s))"
| "on_event e (EvRoleDelete guild role) s =
     (if g_id guild = targetGuildId s then handleRoleDelete e guild role s else (NotDispatched, s))"
| "on_event e (EvGuildMemberAdd guild member) s =
     (if g_id guild = targetGuildId s then handleMemberJoin e guild member s else (NotDispatched, s))"
| "on_event e (EvGuildMemberUpdate guild oldMember newMember) s =
     (if g_id guild = targetGuildId s \<and> \<not> mp_partial oldMember \<and> \<not> mp_partial newMember
      then handleMemberUpdate e guild oldMember newMember s else (NotDispatched, s))"
| "on_event e (EvGuildMemberRemove guild member) s =
     (if g_id guild = targetGuildId s \<and> \<not> mp_partial member
      then handleMemberLeave e guild member s else (NotDispatched, s))"
| "on_event e (EvEmojiCreate guild emoji) s =
     (if g_id guild = targetGuildId s then handleEmojiCreate e guild emoji s else (NotDispatched, s))"
| "on_event e (EvEmojiUpdate guild oldEmoji newEmoji) s =
     (if g_id guild = targetGuildId s then handleEmojiUpdate e guild oldEmoji newEmoji s else (NotDispatched, s))"
| "on_event e (EvEmojiDelete guild emoji) s =
     (if g_id guild = targetGuildId s then handleEmojiDelete e guild emoji s else (NotDispatched, s))"
| "on_event e (EvStickerCreate guild sticker) s =
     in_target s guild (\<lambda>g. handleStickerCreate e g sticker)"
| "on_event e (EvStickerUpdate guild oldSticker newSticker) s =
     in_target s guild (\<lambda>g. handleStickerUpdate e g oldSticker newSticker)"
| "on_event e (EvStickerDelete guild sticker) s =
     in_target s guild (\<lambda>g. handleStickerDelete e g sticker)"
| "on_event e (EvWebhookUpdate guild channel) s =
     in_target s guild (\<lambda>g. handleWebhookUpdate e g channel)"
| "on_event e (EvInviteCreate guild) s = in_target s guild (handleInviteCreate e)"
| "on_event e (EvInviteDelete guild) s = in_target s guild (handleInviteDelete e)"

text \<open>
  One turn of the event loop: the timer callbacks that are due run first, then the
  listener of the event. A handler runs to its end before the next event is taken.
\<close>

definition deliver :: "env \<Rightarrow> event \<Rightarrow> engine \<Rightarrow> exit_point \<times> engine" where
  "deliver e ev s = on_event e ev (fire_timers (now e) s)"

section \<open>Example world\<close>

text \<open>\<open>createDefaultConfig(guildId)\<close>, on the fields of the model.\<close>

definition createDefaultConfig :: GuardConfig where
  "createDefaultConfig =
     \<lparr>enabled = True, whitelist_users = [], whitelist_roles = [], auditChannelId = None,
      protection_roles = True, protection_webhooks = True, protection_invites = True,
      protection_members = True, protection_guild = True, maxInviteCreations = 10,
      onViolation = [LOG, NOTIFY, RESTORE], onSuspiciousActivity = [LOG, NOTIFY]\<rparr>"

text \<open>
  Guild \<open>G\<close> with the audit channel \<open>log\<close>; two backups, \<open>S3\<close> newer than \<open>S1\<close>;
  emoji \<open>E\<close> is in \<open>S1\<close> only; user \<open>W\<close> has an active whitelist entry with no expiry;
  the audit log names user \<open>U\<close>, a member with no roles, as the executor of every
  change; the platform accepts every call.
\<close>

definition ex_guild :: live_guild where
  "ex_guild =
     \<lparr>g_id = ''G'', g_roles = [],
      g_channels = [\<lparr>channel_id = ''log'', channel_name = ''log'', channel_type = 0, channel_parent = None,
                     channel_topic = None, channel_nsfw = False, channel_rateLimitPerUser = 0,
                     channel_manageable = True\<rparr>],
      g_emojis = [], g_stickers = [], g_members = [],
      g_me_manage_roles = True, g_me_highest_position = Some 10\<rparr>"

definition ex_db :: database where
  "ex_db =
     \<lparr>db_up = True, backups_tbl = [(''G'', ''S3''), (''G'', ''S1'')],
      role_data_tbl = [], role_backup_tbl = [], backup_json_roles = [], channel_tbl = [],
      emoji_tbl = [(''S1'', \<lparr>er_id = ''E'', er_guildId = Some ''G'', er_url = ''cdn/E''\<rparr>)],
      sticker_tbl = [], member_tbl = [],
      whitelist_tbl = [\<lparr>wl_guild = ''G'', wl_type = ''user'', wl_target = ''W'',
                        wl_expires_at = None, wl_active = True\<rparr>]\<rparr>"

definition ex_env :: env where
  "ex_env =
     \<lparr>now = 1000000, bot_user_id = Some ''BOT'', client_guilds = [''G'' \<mapsto> ex_guild],
      audit_logs = (\<lambda>a. Inr (Some \<lparr>executor_id = Some ''U'', target_id = None\<rparr>)),
      members_api = [''U'' \<mapsto> []], webhooks_api = (\<lambda>c. Inr []), db = ex_db,
      members_fetch_ok = True, fresh_id = ''NEW'', platform_ok = (\<lambda>c. True)\<rparr>"

definition ex_engine :: engine where
  "ex_engine =
     \<lparr>targetGuildId = ''G'', configs = [''G'' \<mapsto> createDefaultConfig\<lparr>auditChannelId := Some ''log''\<rparr>],
      selfActions = {}, restorationInProgress = {}, whitelistCache = Map.empty,
      recentRoleChanges = Map.empty, timers = [],
      redis = \<lparr>redis_up = True, redis_db = Map.empty\<rparr>, trace = []\<rparr>"

definition ex_role :: role_data where
  "ex_role =
     \<lparr>rl_id = ''R'', rl_name = ''mods'', rl_color = 0, rl_hoist = False, rl_mentionable = False,
      rl_permissions = 8, rl_position = 3, rl_members = []\<rparr>"

text \<open>The same world where the audit log names the whitelisted user \<open>W\<close>.\<close>

definition ex_env_w :: env where
  "ex_env_w = ex_env\<lparr>audit_logs := (\<lambda>a. Inr (Some \<lparr>executor_id = Some ''W'', target_id = None\<rparr>))\<rparr>"

section \<open>Observations on the trace\<close>

text \<open>
  The entries of the trace that belong to a violation: the violation record and the
  violation embeds posted to the audit channel.
\<close>

fun violation_effect :: "effect \<Rightarrow> bool" where
  "violation_effect (ViolationDetected u t d sev i) = True"
| "violation_effect (ViolationEmbed u t d sev) = True"
| "violation_effect x = False"


definition violation_effects :: "engine \<Rightarrow> effect list" where
  "violation_effects s = filter violation_effect (trace s)"


text \<open>What the restore and moderation functions leave unchanged.\<close>

definition view ::
  "engine \<Rightarrow> (string \<rightharpoonup> GuardConfig) \<times> string \<times> (string \<rightharpoonup> (int \<times> string)) \<times> effect list" where
  "view s = (configs s, targetGuildId s, recentRoleChanges s, violation_effects s)"

text \<open>The world of the examples with other action lists, and with an audit channel id that no cached channel has.\<close>

definition ex_engine_kick :: engine where
  "ex_engine_kick =
     ex_engine\<lparr>configs := [''G'' \<mapsto> createDefaultConfig\<lparr>auditChannelId := Some ''log'',
                                onViolation := [KICK], onSuspiciousActivity := [LOG]\<rparr>]\<rparr>"


section \<open>Sequences of notifications\<close>

text \<open>
  The entries of the trace that remedy or report a change: platform calls, the
  violation record, and the embeds. Lookups are not among them.
\<close>

fun remediation :: "effect \<Rightarrow> bool" where
  "remediation (Call c) = True"
| "remediation (ViolationDetected u t d sev i) = True"
| "remediation (ViolationEmbed u t d sev) = True"
| "remediation (RestoreEmbed t i ok) = True"
| "remediation x = False"

definition remediations :: "engine \<Rightarrow> effect list" where
  "remediations s = filter remediation (trace s)"




definition lview :: "engine \<Rightarrow> (string \<rightharpoonup> (int \<times> string)) \<times> effect list" where
  "lview s = (recentRoleChanges s, remediations s)"







section \<open>Properties of the counter store\<close>














section \<open>Properties of the bulk membership syncer\<close>









section \<open>Properties of the violation policy\<close>

lemma view_emit: "\<not> violation_effect x \<Longrightarrow> view (emit x s) = view s"
  by (simp add: view_def emit_def violation_effects_def)






































text \<open>
  C3 (as amended). For a guild with a config, \<open>handleViolation\<close> logs the violation,
  executes in order the \<open>onViolation\<close> list when the severity is critical and the
  \<open>onSuspiciousActivity\<close> list when it is high, medium or low, and then sends the
  notification.
\<close>

theorem handleViolation_action_list:
  assumes "configs s (g_id guild) = Some config"
  shows "handleViolation e guild userId violationType description sev targetId s =
           sendNotification guild userId violationType description sev
             (foldl (\<lambda>s' action. executeAction e action guild userId
                        \<lparr>v_userId = userId, v_violationType = violationType,
                          v_description = description, v_severity = sev, v_targetId = targetId\<rparr> s')
                (emit (ViolationDetected userId violationType description sev targetId) s)
                (case sev of
                   Critical \<Rightarrow> onViolation config
                 | High \<Rightarrow> onSuspiciousActivity config
                 | Medium \<Rightarrow> onSuspiciousActivity config
                 | Low \<Rightarrow> onSuspiciousActivity config))"
  using assms by (cases sev) (simp_all add: handleViolation_def Let_def)

theorem handleViolation_action_list_witness:
  "trace (handleViolation ex_env ex_guild ''U'' ''guild_delete'' [] Critical None ex_engine_kick)
     = [ViolationDetected ''U'' ''guild_delete'' [] Critical None, FetchMember ''U'', Call (MemberKick ''U''),
        ViolationEmbed ''U'' ''guild_delete'' [] Critical]"
proof -
  have c: "configs ex_engine_kick (g_id ex_guild)
             = Some (createDefaultConfig\<lparr>auditChannelId := Some ''log'',
                       onViolation := [KICK], onSuspiciousActivity := [LOG]\<rparr>)"
    by (simp add: ex_engine_kick_def ex_engine_def ex_guild_def)
  have "trace (sendNotification ex_guild ''U'' ''guild_delete'' [] Critical
          (foldl (\<lambda>s' action. executeAction ex_env action ex_guild ''U''
                     \<lparr>v_userId = ''U'', v_violationType = ''guild_delete'',
                       v_description = [], v_severity = Critical, v_targetId = None\<rparr> s')
             (emit (ViolationDetected ''U'' ''guild_delete'' [] Critical None) ex_engine_kick)
             [KICK]))
        = [ViolationDetected ''U'' ''guild_delete'' [] Critical None, FetchMember ''U'', Call (MemberKick ''U''),
           ViolationEmbed ''U'' ''guild_delete'' [] Critical]"
    by code_simp
  then show ?thesis
    unfolding handleViolation_action_list [OF c] by (simp add: createDefaultConfig_def)
qed

text \<open>
  C3 (as stated) fails for the severity high: with \<open>onViolation = [KICK]\<close> and
  \<open>onSuspiciousActivity = [LOG]\<close>, a high violation kicks nobody, a critical one
  kicks the user.
\<close>

theorem high_uses_onViolation_counterexample:
  "trace (handleViolation ex_env ex_guild ''U'' ''role_delete_blocked'' ''mods'' High (Some ''R'') ex_engine_kick)
     = [ViolationDetected ''U'' ''role_delete_blocked'' ''mods'' High (Some ''R''),
        ViolationEmbed ''U'' ''role_delete_blocked'' ''mods'' High]
   \<and> trace (handleViolation ex_env ex_guild ''U'' ''role_delete_blocked'' ''mods'' Critical (Some ''R'') ex_engine_kick)
     = [ViolationDetected ''U'' ''role_delete_blocked'' ''mods'' Critical (Some ''R''), FetchMember ''U'', Call (MemberKick ''U''),
        ViolationEmbed ''U'' ''role_delete_blocked'' ''mods'' Critical]"
  by code_simp

section \<open>Properties of the duplicate-notification gate\<close>



lemma emit_views:
  "\<not> remediation x \<Longrightarrow> lview (emit x s) = lview s"
  by (simp add: lview_def remediations_def emit_def)

lemma getAuditLog_views:
  "view (snd (getAuditLog e a s)) = view s" "lview (snd (getAuditLog e a s)) = lview s"
  by (simp_all add: getAuditLog_def view_emit emit_views split: sum.splits)














section \<open>Properties of the listeners\<close>

lemma run_timer_keeps: "trace (run_timer a s) = trace s" "targetGuildId (run_timer a s) = targetGuildId s"
  by (cases a; simp add: run_timer_def)+

lemma foldl_run_timer_keeps:
  "trace (foldl (\<lambda>s' (d, a). run_timer a s') s due) = trace s
   \<and> targetGuildId (foldl (\<lambda>s' (d, a). run_timer a s') s due) = targetGuildId s"
  by (induction due arbitrary: s) (auto simp: run_timer_keeps)

lemma fire_timers_keeps:
  "trace (fire_timers t s) = trace s" "targetGuildId (fire_timers t s) = targetGuildId s"
  by (simp_all add: fire_timers_def Let_def foldl_run_timer_keeps)

text \<open>
  C9. An event whose guild id is not the target guild id (or which has no guild) is
  not passed to any handler: the listener leaves the engine as it is, and a whole
  turn of the event loop adds nothing to the trace (no audit lookup, no platform call,
  no violation).
\<close>

theorem other_guild_not_dispatched:
  assumes "event_guild_id ev \<noteq> Some (targetGuildId s)"
  shows "on_event e ev s = (NotDispatched, s)
         \<and> fst (deliver e ev s) = NotDispatched
         \<and> trace (snd (deliver e ev s)) = trace s"
proof -
  have a: "on_event e ev s' = (NotDispatched, s')" if "targetGuildId s' = targetGuildId s" for s'
    using assms that by (cases ev) (auto simp: in_target_def split: option.splits)
  have "deliver e ev s = (NotDispatched, fire_timers (now e) s)"
    unfolding deliver_def by (rule a) (simp add: fire_timers_keeps)
  then show ?thesis using a [of s] by (simp add: fire_timers_keeps)
qed

theorem other_guild_not_dispatched_witness:
  "on_event ex_env (EvRoleDelete (ex_guild\<lparr>g_id := ''H''\<rparr>) ex_role) ex_engine = (NotDispatched, ex_engine)
   \<and> fst (deliver ex_env (EvRoleDelete (ex_guild\<lparr>g_id := ''H''\<rparr>) ex_role) ex_engine) = NotDispatched
   \<and> trace (snd (deliver ex_env (EvRoleDelete (ex_guild\<lparr>g_id := ''H''\<rparr>) ex_role) ex_engine)) = trace ex_engine"
proof -
  have "event_guild_id (EvRoleDelete (ex_guild\<lparr>g_id := ''H''\<rparr>) ex_role) \<noteq> Some (targetGuildId ex_engine)"
    by (simp add: ex_engine_def)
  from other_guild_not_dispatched [OF this] show ?thesis by simp
qed

section \<open>Evaluations of the handlers at concrete events\<close>

text \<open>
  C6. An invite is created in the target guild by user \<open>U\<close> while Redis is
  unreachable: \<open>getViolationCount\<close> rejects and \<open>handleInviteCreate\<close>, which has no
  \<open>try\<close> around it, rejects too.
\<close>

theorem invite_create_rejection_escapes:
  "fst (on_event ex_env (EvInviteCreate (Some ex_guild))
          (ex_engine\<lparr>redis := \<lparr>redis_up = False, redis_db = Map.empty\<rparr>\<rparr>)) = Escaped"
  by code_simp

text \<open>
  C4. User \<open>W\<close> has an active, unexpired \<open>user\<close> entry in the whitelist table. The
  deletion of emoji \<open>E\<close> by \<open>W\<close> is not dropped: \<open>handleGenericEvent\<close> consults the
  configured lists of \<open>isWhitelisted\<close> only, restores and records the violation. The
  deletion of a role by \<open>W\<close> is dropped, since \<open>handleRoleDelete\<close> calls
  \<open>checkWhitelist\<close>.
\<close>

theorem whitelisted_emoji_delete_not_dropped:
  "db_isWhitelisted ex_env_w ''G'' ''user'' ''W''
   \<and> fst (on_event ex_env_w (EvEmojiDelete ex_guild \<lparr>item_id = ''E'', item_name = ''smile''\<rparr>) ex_engine) = Acted
   \<and> trace (snd (on_event ex_env_w (EvEmojiDelete ex_guild \<lparr>item_id = ''E'', item_name = ''smile''\<rparr>) ex_engine))
       = [FetchAuditLogs AL_EmojiDelete, RestoreEmbed ''emoji'' ''E'' False,
          ViolationDetected ''unknown'' ''emoji_delete_blocked'' ''smile'' High (Some ''E''),
          ViolationEmbed ''unknown'' ''emoji_delete_blocked'' ''smile'' High,
          ViolationEmbed ''unknown'' ''emoji_delete_blocked'' ''smile'' High]
   \<and> fst (on_event ex_env_w (EvRoleDelete ex_guild ex_role) ex_engine) = WhitelistDropped"
  by code_simp

text \<open>
  C1. The guild settings are changed by \<open>U\<close>; the handler restores them, which marks
  \<open>G:guild_settings\<close>. Half a second later the notification of the engine's own
  \<open>guild.edit\<close> arrives while the audit log still shows the entry of \<open>U\<close>: the marker
  is still set when the timers due by then have run, but \<open>handleGuildUpdate\<close> never
  reads it and remediates again.
\<close>

theorem guild_settings_echo_not_dropped:
  "isSelfAction (fire_timers 1000500 (snd (deliver ex_env (EvGuildUpdate ex_guild ex_guild) ex_engine)))
     ''G'' ''guild_settings''
   \<and> fst (deliver (ex_env\<lparr>now := 1000500\<rparr>) (EvGuildUpdate ex_guild ex_guild)
            (snd (deliver ex_env (EvGuildUpdate ex_guild ex_guild) ex_engine))) = Acted
   \<and> trace (snd (deliver (ex_env\<lparr>now := 1000500\<rparr>) (EvGuildUpdate ex_guild ex_guild)
            (snd (deliver ex_env (EvGuildUpdate ex_guild ex_guild) ex_engine))))
       = [FetchAuditLogs AL_GuildUpdate, Call GuildEdit,
          ViolationDetected ''U'' ''guild_update_blocked'' [] High None,
          ViolationEmbed ''U'' ''guild_update_blocked'' [] High,
          ViolationEmbed ''U'' ''guild_update_blocked'' [] High,
          FetchAuditLogs AL_GuildUpdate, Call GuildEdit,
          ViolationDetected ''U'' ''guild_update_blocked'' [] High None,
          ViolationEmbed ''U'' ''guild_update_blocked'' [] High,
          ViolationEmbed ''U'' ''guild_update_blocked'' [] High]"
  by code_simp

text \<open>
  C5. Emoji \<open>E\<close> is deleted; the latest backup \<open>S3\<close> does not hold it, the older
  backup \<open>S1\<close> does. \<open>restoreDeletedEmoji\<close> tries \<open>S3\<close> only and reports the failure.
  \<open>performRestore\<close>, given \<open>restoreEmoji\<close> as its restore method, goes on to \<open>S1\<close> and
  restores the emoji.
\<close>

theorem emoji_restore_no_fallback:
  "trace (restoreDeletedEmoji ex_env ex_guild None (Some ''E'') ex_engine)
     = [RestoreEmbed ''emoji'' ''E'' False]
   \<and> trace (performRestore ex_env ex_guild None (Some ''E'') ''emoji'' (restoreEmoji ex_env) ex_engine)
     = [Call (FetchUrl ''cdn/E''), Call (EmojiCreate ''E''), RestoreEmbed ''emoji'' ''E'' True]"
  by code_simp

end
